theory Spec2Isabelle
  imports Main
begin

section \<open>Python values, exceptions and string primitives\<close>

text \<open>
  The program is \<^verbatim>\<open>main.py\<close> of esxi-getsmart. A Python \<^verbatim>\<open>str\<close> is modelled as a
  \<^typ>\<open>string\<close>, one \<^typ>\<open>char\<close> per code point, so the model covers the code points
  below 256. An uncaught exception is the left injection of a sum type.
\<close>

datatype error = IndexError | KeyError | ValueError | TypeError | OverflowError

text \<open>The values stored in the \<^verbatim>\<open>smart_data\<close> dictionary are strings and integers.\<close>

datatype pyval = VStr string | VInt int

type_synonym smart_data = "string \<rightharpoonup> pyval"

text \<open>Sequencing of statements that may raise: the first exception ends the computation.\<close>

definition and_then :: "'e + 'a \<Rightarrow> ('a \<Rightarrow> 'e + 'b) \<Rightarrow> 'e + 'b" where
  "and_then r f = (case r of Inl e \<Rightarrow> Inl e | Inr x \<Rightarrow> f x)"

text \<open>\<^verbatim>\<open>xs[i]\<close> for a non-negative literal index.\<close>

definition py_index :: "'a list \<Rightarrow> nat \<Rightarrow> error + 'a" where
  "py_index xs i = (if i < length xs then Inr (xs ! i) else Inl IndexError)"

text \<open>\<^verbatim>\<open>d[k]\<close> on a dictionary.\<close>

definition py_getitem :: "('k \<rightharpoonup> 'v) \<Rightarrow> 'k \<Rightarrow> error + 'v" where
  "py_getitem d k = (case d k of None \<Rightarrow> Inl KeyError | Some v \<Rightarrow> Inr v)"

text \<open>
  The characters for which \<^verbatim>\<open>str.isspace\<close> holds, among the code points below 256.
  \<^verbatim>\<open>str.strip()\<close> and \<^verbatim>\<open>str.split()\<close> use this set.
\<close>

definition is_space :: "char \<Rightarrow> bool" where
  "is_space c = (of_char c \<in> {9, 10, 11, 12, 13, 28, 29, 30, 31, 32, 133, 160 :: nat})"

text \<open>\<^verbatim>\<open>s.strip()\<close>\<close>

definition py_strip :: "string \<Rightarrow> string" where
  "py_strip s = rev (dropWhile is_space (rev (dropWhile is_space s)))"

text \<open>\<^verbatim>\<open>s.strip(chars)\<close>: removes, from both ends, every character that occurs in
  \<^verbatim>\<open>chars\<close>; it does not look for \<^verbatim>\<open>chars\<close> as a substring.\<close>

definition py_strip_chars :: "string \<Rightarrow> string \<Rightarrow> string" where
  "py_strip_chars chars s =
     rev (dropWhile (\<lambda>c. c \<in> set chars) (rev (dropWhile (\<lambda>c. c \<in> set chars) s)))"

text \<open>\<^verbatim>\<open>s.split(sep)\<close> for a separator of one character: always at least one piece.\<close>

fun split_on_acc :: "char \<Rightarrow> string \<Rightarrow> string \<Rightarrow> string list" where
  "split_on_acc sep acc [] = [acc]"
| "split_on_acc sep acc (c # cs) =
     (if c = sep then acc # split_on_acc sep [] cs else split_on_acc sep (acc @ [c]) cs)"

definition py_split_on :: "char \<Rightarrow> string \<Rightarrow> string list" where
  "py_split_on sep s = split_on_acc sep [] s"

text \<open>\<^verbatim>\<open>s.split()\<close>: the maximal runs of non-whitespace characters.\<close>

fun split_ws_acc :: "string \<Rightarrow> string \<Rightarrow> string list" where
  "split_ws_acc acc [] = (if acc = [] then [] else [acc])"
| "split_ws_acc acc (c # cs) =
     (if is_space c then (if acc = [] then split_ws_acc [] cs else acc # split_ws_acc [] cs)
      else split_ws_acc (acc @ [c]) cs)"

definition py_split :: "string \<Rightarrow> string list" where
  "py_split s = split_ws_acc [] s"

text \<open>\<^verbatim>\<open>sub in s\<close> on strings.\<close>

fun py_in :: "string \<Rightarrow> string \<Rightarrow> bool" where
  "py_in sub [] = (sub = [])"
| "py_in sub (c # cs) = (take (length sub) (c # cs) = sub \<or> py_in sub cs)"

text \<open>\<^verbatim>\<open>a <= b\<close> on stored values: integers by value, strings by code point, and a
  \<^verbatim>\<open>TypeError\<close> between a string and an integer.\<close>

fun str_le :: "string \<Rightarrow> string \<Rightarrow> bool" where
  "str_le [] ys = True"
| "str_le (x # xs) [] = False"
| "str_le (x # xs) (y # ys) =
     (if x = y then str_le xs ys else (of_char x :: nat) < of_char y)"

fun py_le :: "pyval \<Rightarrow> pyval \<Rightarrow> error + bool" where
  "py_le (VInt a) (VInt b) = Inr (a \<le> b)"
| "py_le (VStr a) (VStr b) = Inr (str_le a b)"
| "py_le (VInt a) (VStr b) = Inl TypeError"
| "py_le (VStr a) (VInt b) = Inl TypeError"

section \<open>\<^verbatim>\<open>int(s)\<close> and \<^verbatim>\<open>int(s, 16)\<close>\<close>

text \<open>
  \<^verbatim>\<open>int\<close> skips the whitespace of the C locale and the non-ASCII spaces at both ends,
  accepts one sign, for base 16 an optional \<^verbatim>\<open>0x\<close> prefix that one underscore may follow,
  then digits with single underscores between them. In base 10 a string with more digits
  than the interpreter's limit (\<^verbatim>\<open>sys.get_int_max_str_digits()\<close>, 4300 unless configured,
  0 for no limit) is refused.
\<close>

definition int_space :: "char \<Rightarrow> bool" where
  "int_space c = (of_char c \<in> {9, 10, 11, 12, 13, 32, 133, 160 :: nat})"

definition digit_val :: "char \<Rightarrow> nat option" where
  "digit_val c =
     (let n = (of_char c :: nat) in
      if 48 \<le> n \<and> n \<le> 57 then Some (n - 48)
      else if 97 \<le> n \<and> n \<le> 122 then Some (n - 87)
      else if 65 \<le> n \<and> n \<le> 90 then Some (n - 55)
      else None)"

definition is_digit :: "nat \<Rightarrow> char \<Rightarrow> bool" where
  "is_digit base c = (case digit_val c of None \<Rightarrow> False | Some d \<Rightarrow> d < base)"

text \<open>
  The digit scan: \<open>us\<close> tells whether the previous character was an underscore,
  \<open>v\<close> is the value and \<open>n\<close> the number of digits read so far. The result is the
  value, the number of digits and the unread rest; \<open>None\<close> for a doubled or a trailing
  underscore.
\<close>

fun scan_digits :: "nat \<Rightarrow> bool \<Rightarrow> nat \<Rightarrow> nat \<Rightarrow> string \<Rightarrow> (nat \<times> nat \<times> string) option" where
  "scan_digits base us v n [] = (if us then None else Some (v, n, []))"
| "scan_digits base us v n (c # cs) =
     (if c = CHR ''_'' then (if us then None else scan_digits base True v n cs)
      else if is_digit base c then scan_digits base False (v * base + the (digit_val c)) (Suc n) cs
      else if us then None else Some (v, n, c # cs))"

definition skip_sign :: "string \<Rightarrow> bool \<times> string" where
  "skip_sign s =
     (case s of
        [] \<Rightarrow> (False, s)
      | c # cs \<Rightarrow> if c = CHR ''+'' then (False, cs) else if c = CHR ''-'' then (True, cs)
                 else (False, s))"

definition skip_hex_prefix :: "string \<Rightarrow> string" where
  "skip_hex_prefix s =
     (case s of
        z # x # r \<Rightarrow>
          if z = CHR ''0'' \<and> (x = CHR ''x'' \<or> x = CHR ''X'')
          then (case r of [] \<Rightarrow> r | u # r' \<Rightarrow> if u = CHR ''_'' then r' else r)
          else s
      | _ \<Rightarrow> s)"

definition py_int_base :: "nat \<Rightarrow> nat \<Rightarrow> string \<Rightarrow> error + int" where
  "py_int_base maxd base s =
     (let (neg, s1) = skip_sign (dropWhile int_space s);
          s2 = (if base = 16 then skip_hex_prefix s1 else s1)
      in if take 1 s2 = ''_'' then Inl ValueError
         else case scan_digits base False 0 0 s2 of
                None \<Rightarrow> Inl ValueError
              | Some (v, n, rest) \<Rightarrow>
                  if n = 0 then Inl ValueError
                  else if base \<noteq> 16 \<and> 0 < maxd \<and> 640 < n \<and> maxd < n then Inl ValueError
                  else if dropWhile int_space rest \<noteq> [] then Inl ValueError
                  else Inr (if neg then - int v else int v))"

definition py_int :: "nat \<Rightarrow> string \<Rightarrow> error + int" where
  "py_int maxd s = py_int_base maxd 10 s"

definition py_int16 :: "string \<Rightarrow> error + int" where
  "py_int16 s = py_int_base 0 16 s"

section \<open>\<^verbatim>\<open>float(s)\<close>, subtraction and \<^verbatim>\<open>round\<close>\<close>

text \<open>
  A Python \<^verbatim>\<open>float\<close> is an IEEE 754 binary64 number. \<open>Finite m e\<close> stands for the
  number \<open>m \<times> 2\<^sup>e\<close>, \<open>Infinity neg\<close> for the infinity of that sign. The sign of a zero
  is not kept: the program only subtracts a non-zero constant from the number it reads.
\<close>

datatype pyfloat = Finite int int | Infinity bool | NaN

fun bit_length :: "nat \<Rightarrow> nat" where
  "bit_length n = (if n = 0 then 0 else Suc (bit_length (n div 2)))"

declare bit_length.simps [simp del]

text \<open>\<open>ge_pow2 n d e\<close> tells whether \<open>n / d \<ge> 2\<^sup>e\<close>; \<open>floor_log2 n d\<close> is the exponent
  of the leading bit of \<open>n / d\<close>, for positive \<open>n\<close> and \<open>d\<close>.\<close>

definition ge_pow2 :: "nat \<Rightarrow> nat \<Rightarrow> int \<Rightarrow> bool" where
  "ge_pow2 n d e = (if 0 \<le> e then d * 2 ^ nat e \<le> n else d \<le> n * 2 ^ nat (- e))"

definition floor_log2 :: "nat \<Rightarrow> nat \<Rightarrow> int" where
  "floor_log2 n d =
     (let e = int (bit_length n) - int (bit_length d) in if ge_pow2 n d e then e else e - 1)"

text \<open>\<open>n / d\<close> rounded to the nearest integer, a tie to the even one.\<close>

definition round_half_even :: "nat \<Rightarrow> nat \<Rightarrow> nat" where
  "round_half_even n d =
     (let q = n div d; r = n mod d
      in if 2 * r < d then q else if d < 2 * r then q + 1 else if even q then q else q + 1)"

text \<open>
  The binary64 number nearest to \<open>\<plusminus> n / d\<close> (ties to even): 53 significant bits, the
  exponent of the last bit not below \<open>-1074\<close>, and an infinity from \<open>2\<^sup>1\<^sup>0\<^sup>2\<^sup>4\<close> on.
\<close>

definition to_double :: "bool \<Rightarrow> nat \<Rightarrow> nat \<Rightarrow> pyfloat" where
  "to_double neg n d =
     (if n = 0 then Finite 0 0
      else
        let q = max (floor_log2 n d - 52) (- 1074);
            m = (if 0 \<le> q then round_half_even n (d * 2 ^ nat q)
                 else round_half_even (n * 2 ^ nat (- q)) d)
        in if 971 < q \<or> (q = 971 \<and> 2 ^ 53 \<le> m) then Infinity neg
           else Finite (if neg then - int m else int m) q)"

text \<open>\<^verbatim>\<open>a - b\<close> on floats: the exact difference, rounded.\<close>

fun float_sub :: "pyfloat \<Rightarrow> pyfloat \<Rightarrow> pyfloat" where
  "float_sub (Finite m1 e1) (Finite m2 e2) =
     (let e = min e1 e2;
          k = m1 * 2 ^ nat (e1 - e) - m2 * 2 ^ nat (e2 - e)
      in if 0 \<le> e then to_double (k < 0) (nat \<bar>k\<bar> * 2 ^ nat e) 1
         else to_double (k < 0) (nat \<bar>k\<bar>) (2 ^ nat (- e)))"
| "float_sub NaN b = NaN"
| "float_sub a NaN = NaN"
| "float_sub (Infinity s) (Infinity t) = (if s = t then NaN else Infinity s)"
| "float_sub (Infinity s) (Finite m e) = Infinity s"
| "float_sub (Finite m e) (Infinity t) = Infinity (\<not> t)"

text \<open>\<^verbatim>\<open>int(round(x))\<close>: the nearest integer, a tie to the even one; an infinity raises
  \<^verbatim>\<open>OverflowError\<close> and a NaN \<^verbatim>\<open>ValueError\<close>.\<close>

fun py_round :: "pyfloat \<Rightarrow> error + int" where
  "py_round (Finite m e) =
     Inr (if 0 \<le> e then m * 2 ^ nat e
          else let r = int (round_half_even (nat \<bar>m\<bar>) (2 ^ nat (- e)))
               in if m < 0 then - r else r)"
| "py_round (Infinity s) = Inl OverflowError"
| "py_round NaN = Inl ValueError"

text \<open>
  \<^verbatim>\<open>float(s)\<close>: whitespace is skipped at both ends; an underscore must stand between two
  digits and is then dropped; what is left is one sign followed by \<^verbatim>\<open>inf\<close>,
  \<^verbatim>\<open>infinity\<close> or \<^verbatim>\<open>nan\<close> in any case, or by a decimal number with an optional
  fraction and an optional exponent. The decimal number is rounded correctly.
\<close>

fun underscores_ok :: "char \<Rightarrow> string \<Rightarrow> bool" where
  "underscores_ok prev [] = (prev \<noteq> CHR ''_'')"
| "underscores_ok prev (c # cs) =
     (if c = CHR ''_'' then is_digit 10 prev \<and> underscores_ok c cs
      else (if prev = CHR ''_'' then is_digit 10 c else True) \<and> underscores_ok c cs)"

text \<open>The comparison with a lower-case word that ignores the case of ASCII letters.\<close>

definition lower_code :: "char \<Rightarrow> nat" where
  "lower_code c = (let n = (of_char c :: nat) in if 65 \<le> n \<and> n \<le> 90 then n + 32 else n)"

definition matches_word :: "string \<Rightarrow> string \<Rightarrow> bool" where
  "matches_word s word = (map lower_code s = map of_char word)"

definition digits_val :: "string \<Rightarrow> nat" where
  "digits_val ds = foldl (\<lambda>v c. v * 10 + the (digit_val c)) 0 ds"

text \<open>The digits \<open>D\<close> and the decimal exponent \<open>k\<close> of a decimal number \<open>D \<times> 10\<^sup>k\<close>.\<close>

definition parse_decimal :: "string \<Rightarrow> (nat \<times> int) option" where
  "parse_decimal r =
     (let ip = takeWhile (is_digit 10) r;
          r1 = dropWhile (is_digit 10) r;
          (fp, r2) = (case r1 of
                        [] \<Rightarrow> ([], r1)
                      | c # t \<Rightarrow> if c = CHR ''.''
                                then (takeWhile (is_digit 10) t, dropWhile (is_digit 10) t)
                                else ([], r1))
      in if ip = [] \<and> fp = [] then None
         else case r2 of
                [] \<Rightarrow> Some (digits_val (ip @ fp), - int (length fp))
              | c # t \<Rightarrow>
                  if c = CHR ''e'' \<or> c = CHR ''E''
                  then (let (eneg, ds) = skip_sign t
                        in if ds \<noteq> [] \<and> list_all (is_digit 10) ds
                           then Some (digits_val (ip @ fp),
                                      (if eneg then - int (digits_val ds) else int (digits_val ds))
                                        - int (length fp))
                           else None)
                  else None)"

definition py_float :: "string \<Rightarrow> error + pyfloat" where
  "py_float s =
     (let t = rev (dropWhile int_space (rev (dropWhile int_space s)))
      in if \<not> underscores_ok (CHR 0x00) t then Inl ValueError
         else
           let (neg, r) = skip_sign (filter (\<lambda>c. c \<noteq> CHR ''_'') t)
           in if matches_word r ''inf'' \<or> matches_word r ''infinity'' then Inr (Infinity neg)
              else if matches_word r ''nan'' then Inr NaN
              else case parse_decimal r of
                     None \<Rightarrow> Inl ValueError
                   | Some (D, k) \<Rightarrow>
                       Inr (if 0 \<le> k then to_double neg (D * 10 ^ nat k) 1
                            else to_double neg D (10 ^ nat (- k))))"

text \<open>The literal \<^verbatim>\<open>273.15\<close>.\<close>

definition kelvin_offset :: pyfloat where
  "kelvin_offset = to_double False 27315 100"

section \<open>The NVME parser (\<^verbatim>\<open>main\<close>, case \<^verbatim>\<open>'NVME'\<close>)\<close>

text \<open>
  Each output line is stripped and split at every colon; \<open>line\<close> below is that list,
  \<open>hd line\<close> is \<^verbatim>\<open>line[0]\<close> (the list is never empty). The nine \<^verbatim>\<open>if\<close> statements
  of the loop body are of four kinds; all of them read \<^verbatim>\<open>line[1]\<close>, which raises
  \<^verbatim>\<open>IndexError\<close> on a line without a colon.
\<close>

text \<open>\<^verbatim>\<open>smart_data[line[0]] = line[1].strip()\<close>\<close>

definition nvme_verbatim :: "string \<Rightarrow> string list \<Rightarrow> smart_data \<Rightarrow> error + smart_data" where
  "nvme_verbatim key line smart =
     (if hd line = key
      then and_then (py_index line 1) (\<lambda>v. Inr (smart(hd line \<mapsto> VStr (py_strip v))))
      else Inr smart)"

text \<open>\<^verbatim>\<open>temp = int(round(float(line[1].split()[0]) - 273.15))\<close>\<close>

definition nvme_temperature :: "string list \<Rightarrow> smart_data \<Rightarrow> error + smart_data" where
  "nvme_temperature line smart =
     (if hd line = ''Composite Temperature''
      then and_then (py_index line 1) (\<lambda>v.
           and_then (py_index (py_split v) 0) (\<lambda>tok.
           and_then (py_float tok) (\<lambda>kelvin.
           and_then (py_round (float_sub kelvin kelvin_offset)) (\<lambda>temp.
           Inr (smart(''Drive Temperature (Celcius)'' \<mapsto> VInt temp))))))
      else Inr smart)"

text \<open>\<^verbatim>\<open>pct = int(line[1].split('%')[0].strip())\<close>, stored under \<^verbatim>\<open>line[0] + ' (%)'\<close>\<close>

definition nvme_percent :: "nat \<Rightarrow> string \<Rightarrow> string list \<Rightarrow> smart_data \<Rightarrow> error + smart_data" where
  "nvme_percent maxd key line smart =
     (if hd line = key
      then and_then (py_index line 1) (\<lambda>v.
           and_then (py_int maxd (py_strip (hd (py_split_on CHR ''%'' v)))) (\<lambda>pct.
           Inr (smart(hd line @ '' (%)'' \<mapsto> VInt pct))))
      else Inr smart)"

text \<open>\<^verbatim>\<open>amount = int(line[1].strip()[2:], 16)\<close>\<close>

definition nvme_hex :: "string \<Rightarrow> string list \<Rightarrow> smart_data \<Rightarrow> error + smart_data" where
  "nvme_hex key line smart =
     (if hd line = key
      then and_then (py_index line 1) (\<lambda>v.
           and_then (py_int16 (drop 2 (py_strip v))) (\<lambda>amount.
           Inr (smart(hd line \<mapsto> VInt amount))))
      else Inr smart)"

text \<open>The body of the loop over the output lines.\<close>

definition nvme_line :: "nat \<Rightarrow> smart_data \<Rightarrow> string \<Rightarrow> error + smart_data" where
  "nvme_line maxd smart raw =
     (let line = py_split_on CHR '':'' (py_strip raw) in
      and_then (nvme_verbatim ''NVM Subsystem Reliability Degradation'' line smart) (\<lambda>smart.
      and_then (nvme_verbatim ''Volatile Memory Backup Device Failure'' line smart) (\<lambda>smart.
      and_then (nvme_temperature line smart) (\<lambda>smart.
      and_then (nvme_percent maxd ''Available Spare'' line smart) (\<lambda>smart.
      and_then (nvme_percent maxd ''Available Spare Threshold'' line smart) (\<lambda>smart.
      and_then (nvme_percent maxd ''Percentage Used'' line smart) (\<lambda>smart.
      and_then (nvme_hex ''Unsafe Shutdowns'' line smart) (\<lambda>smart.
      and_then (nvme_hex ''Media Errors'' line smart) (\<lambda>smart.
      nvme_hex ''Number of Error Info Log Entries'' line smart)))))))))"

fun nvme_lines :: "nat \<Rightarrow> smart_data \<Rightarrow> string list \<Rightarrow> error + smart_data" where
  "nvme_lines maxd smart [] = Inr smart"
| "nvme_lines maxd smart (raw # rest) =
     and_then (nvme_line maxd smart raw) (\<lambda>smart. nvme_lines maxd smart rest)"

text \<open>The statement after the loop: both keys are looked up without a check.\<close>

definition nvme_verdict :: "smart_data \<Rightarrow> error + smart_data" where
  "nvme_verdict smart =
     and_then (py_getitem smart ''Available Spare (%)'') (\<lambda>spare.
     and_then (py_getitem smart ''Available Spare Threshold (%)'') (\<lambda>threshold.
     and_then (py_le spare threshold) (\<lambda>le.
     Inr (if le then smart(''Health Status'' \<mapsto> VStr ''Not OK'') else smart))))"

definition parse_nvme :: "nat \<Rightarrow> smart_data \<Rightarrow> string list \<Rightarrow> error + smart_data" where
  "parse_nvme maxd smart output = and_then (nvme_lines maxd smart output) nvme_verdict"

section \<open>The SATA and DISK parsers (\<^verbatim>\<open>main\<close>, cases \<^verbatim>\<open>'SATA'\<close> and \<^verbatim>\<open>'DISK'\<close>)\<close>

text \<open>
  One \<^verbatim>\<open>if\<close> statement of these loops:
  \<^verbatim>\<open>if label in line: smart_data[key] = line.strip(label).split()[i]\<close>.
\<close>

definition smart_field :: "string \<Rightarrow> string \<Rightarrow> nat \<Rightarrow> string \<Rightarrow> smart_data \<Rightarrow> error + smart_data" where
  "smart_field label key i line smart =
     (if py_in label line
      then and_then (py_index (py_split (py_strip_chars label line)) i) (\<lambda>v.
           Inr (smart(key \<mapsto> VStr v)))
      else Inr smart)"

definition sata_line :: "smart_data \<Rightarrow> string \<Rightarrow> error + smart_data" where
  "sata_line smart line =
     and_then (smart_field ''Health Status'' ''Health Status'' 0 line smart) (\<lambda>smart.
     and_then (smart_field ''Drive Temperature'' ''Drive Temperature (Celcius)'' 3 line smart) (\<lambda>smart.
     and_then (smart_field ''Media Wearout Indicator'' ''Media Wearout Indicator'' 3 line smart) (\<lambda>smart.
     and_then (smart_field ''Reallocated Sector Count'' ''Reallocated Sector Count'' 3 line smart) (\<lambda>smart.
     and_then (smart_field ''Write Sectors TOT Count'' ''Write Sectors TOT Count'' 3 line smart) (\<lambda>smart.
     and_then (smart_field ''Read Sectors TOT Count'' ''Read Sectors TOT Count'' 3 line smart) (\<lambda>smart.
     and_then (smart_field ''Initial Bad Block Count'' ''Initial Bad Block Count'' 3 line smart) (\<lambda>smart.
     and_then (smart_field ''Program Fail Count'' ''Program Fail Count'' 3 line smart) (\<lambda>smart.
     and_then (smart_field ''Erase Fail Count'' ''Erase Fail Count'' 3 line smart) (\<lambda>smart.
     and_then (smart_field ''Uncorrectable Error Count'' ''Uncorrectable Error Count'' 3 line smart) (\<lambda>smart.
     smart_field ''Pending Sector Reallocation Count'' ''Pending Sector Reallocation Count'' 3 line smart))))))))))"

fun parse_sata :: "smart_data \<Rightarrow> string list \<Rightarrow> error + smart_data" where
  "parse_sata smart [] = Inr smart"
| "parse_sata smart (line # rest) =
     and_then (sata_line smart line) (\<lambda>smart. parse_sata smart rest)"

definition disk_line :: "smart_data \<Rightarrow> string \<Rightarrow> error + smart_data" where
  "disk_line smart line =
     and_then (smart_field ''Health Status'' ''Health Status'' 0 line smart) (\<lambda>smart.
     and_then (smart_field ''Drive Temperature'' ''Drive Temperature (Celcius)'' 3 line smart) (\<lambda>smart.
     and_then (smart_field ''Read Error Count'' ''Read Error Count'' 3 line smart) (\<lambda>smart.
     and_then (smart_field ''Reallocated Sector Count'' ''Reallocated Sector Count'' 3 line smart) (\<lambda>smart.
     and_then (smart_field ''Sector Reallocation Event Count'' ''Sector Reallocation Event Count'' 3 line smart) (\<lambda>smart.
     and_then (smart_field ''Pending Sector Reallocation Count'' ''Pending Sector Reallocation Count'' 3 line smart) (\<lambda>smart.
     smart_field ''Uncorrectable Sector Count'' ''Uncorrectable Sector Count'' 3 line smart))))))"

fun parse_disk :: "smart_data \<Rightarrow> string list \<Rightarrow> error + smart_data" where
  "parse_disk smart [] = Inr smart"
| "parse_disk smart (line # rest) =
     and_then (disk_line smart line) (\<lambda>smart. parse_disk smart rest)"

section \<open>The remote command (\<^verbatim>\<open>esxi_command\<close>)\<close>

text \<open>
  The log file is a list of entries, the oldest first. What the SSH library does for one
  command is a parameter of the model: each of the three calls of the \<^verbatim>\<open>try\<close> block
  either raises an exception, given by its message, or returns.
\<close>

datatype level = INFO | ERROR

type_synonym log = "(level \<times> string) list"

record paramiko =
  connect :: "string + unit"
  exec_command :: "string + unit"
  readlines :: "string + string list"

type_synonym ssh = "string \<Rightarrow> string option \<Rightarrow> string option \<Rightarrow> string \<Rightarrow> paramiko"

text \<open>The \<^verbatim>\<open>try\<close> block: connect, run the command, copy the lines of its standard output
  one by one, and return them with the status \<^verbatim>\<open>'OK'\<close>.\<close>

definition esxi_command_try :: "paramiko \<Rightarrow> string + (string list \<times> string)" where
  "esxi_command_try client =
     and_then (connect client) (\<lambda>_.
     and_then (exec_command client) (\<lambda>_.
     and_then (readlines client) (\<lambda>lines.
     Inr (foldl (\<lambda>output line. output @ [line]) [] lines, ''OK''))))"

text \<open>
  The \<^verbatim>\<open>except\<close> clause logs the exception and returns nothing, so the function's
  result is then \<^verbatim>\<open>None\<close>. The result is paired with the log. The construction of
  the client and the \<^verbatim>\<open>finally\<close> clause that closes it are taken not to raise, and what
  is printed on the console is left out.
\<close>

definition esxi_command ::
  "ssh \<Rightarrow> string \<Rightarrow> string option \<Rightarrow> string option \<Rightarrow> string \<Rightarrow> log
     \<Rightarrow> (string list \<times> string) option \<times> log" where
  "esxi_command ssh host user password command lg =
     (case esxi_command_try (ssh host user password command) of
        Inr result \<Rightarrow> (Some result, lg)
      | Inl e \<Rightarrow> (None, lg @ [(ERROR, e)]))"

section \<open>The loop over the inventory (\<^verbatim>\<open>main\<close>)\<close>

text \<open>
  What the run depends on: the environment read by \<^verbatim>\<open>os.getenv\<close>, the hosts reached
  over SSH, whether \<^verbatim>\<open>os.getenv\<close> hands out the very string object of
  \<^verbatim>\<open>default_esxi_user\<close> when the values are equal, and the interpreter's limit on the
  digits of a decimal integer string.
\<close>

record world =
  env :: "string \<rightharpoonup> string"
  ssh_hosts :: ssh
  same_object :: bool
  max_str_digits :: nat

record run_state =
  servers :: "string \<rightharpoonup> smart_data list"
  logged :: log

definition default_esxi_user :: string where
  "default_esxi_user = ''root''"

definition drive_types :: "string list" where
  "drive_types = [''NVME'', ''SATA'', ''DISK'']"

text \<open>\<^verbatim>\<open>a is not b\<close> between two results that are \<^verbatim>\<open>None\<close> or a string: \<^verbatim>\<open>None\<close> is
  one object, and two strings are one object only if they are equal and shared.\<close>

definition py_is_not :: "bool \<Rightarrow> string option \<Rightarrow> string option \<Rightarrow> bool" where
  "py_is_not shared a b =
     (case (a, b) of
        (None, None) \<Rightarrow> False
      | (Some x, Some y) \<Rightarrow> \<not> (shared \<and> x = y)
      | _ \<Rightarrow> True)"

text \<open>Lines 93 to 95: the user name handed to \<^verbatim>\<open>esxi_command\<close>.\<close>

definition esxi_user :: "world \<Rightarrow> string option" where
  "esxi_user w =
     (let esxi_user = Some default_esxi_user
      in if py_is_not (same_object w) (env w ''ESXI_USER'') esxi_user
         then env w ''ESXI_USER'' else esxi_user)"

definition base_smart_data :: "string list \<Rightarrow> smart_data" where
  "base_smart_data row =
     Map.empty(''Drive Type'' \<mapsto> VStr (row ! 2), ''Drive Name'' \<mapsto> VStr (row ! 3),
               ''Health Status'' \<mapsto> VStr ''OK'')"

definition nvme_command :: "string list \<Rightarrow> string" where
  "nvme_command row = ''esxcli nvme device log smart get -A '' @ row ! 3"

definition smart_command :: "string list \<Rightarrow> string" where
  "smart_command row = ''esxcli storage core device smart get -d '' @ row ! 3"

text \<open>\<^verbatim>\<open>output[1]\<close> and \<^verbatim>\<open>output[0]\<close> on the result of \<^verbatim>\<open>esxi_command\<close>: subscripting
  \<^verbatim>\<open>None\<close> raises \<^verbatim>\<open>TypeError\<close>.\<close>

definition subscript_output :: "(string list \<times> string) option \<Rightarrow> error + (string list \<times> string)" where
  "subscript_output output = (case output of None \<Rightarrow> Inl TypeError | Some r \<Rightarrow> Inr r)"

text \<open>
  One case of the \<^verbatim>\<open>match\<close> statement: run the command, take the status from its
  result, then parse the lines. The result is the pair of \<^verbatim>\<open>command_status\<close> and
  \<^verbatim>\<open>smart_data\<close>, or the exception raised, with the state at that moment.
\<close>

definition query_drive ::
  "world \<Rightarrow> run_state \<Rightarrow> string list \<Rightarrow> string \<Rightarrow> (smart_data \<Rightarrow> string list \<Rightarrow> error + smart_data)
     \<Rightarrow> smart_data \<Rightarrow> (error + (string \<times> smart_data)) \<times> run_state" where
  "query_drive w st row command parse smart_data =
     (let (output, lg) =
            esxi_command (ssh_hosts w) (row ! 1) (esxi_user w) (env w ''ESXI_PASS'') command
              (logged st)
      in (and_then (subscript_output output) (\<lambda>(lines, command_status).
          and_then (parse smart_data lines) (\<lambda>smart_data.
          Inr (command_status, smart_data))),
          st\<lparr>logged := lg\<rparr>))"

text \<open>
  Lines 89 to 232 of the loop body. A row with fewer than four fields raises
  \<^verbatim>\<open>IndexError\<close> in the first statement. A drive type outside \<^verbatim>\<open>drive_types\<close> is logged,
  matches no case, and leaves \<^verbatim>\<open>command_status\<close> at \<^verbatim>\<open>'Not OK'\<close>.
\<close>

definition read_drive ::
  "world \<Rightarrow> run_state \<Rightarrow> string list \<Rightarrow> (error + (string \<times> smart_data)) \<times> run_state" where
  "read_drive w st row =
     (if length row < 4 then (Inl IndexError, st)
      else
        let st = st\<lparr>logged := logged st @
                   [(INFO, ''########## Starting CSV iteration for '' @ row ! 0 @ '' drive ''
                             @ row ! 3 @ '' ##########'')]\<rparr>;
            st = (if row ! 2 \<notin> set drive_types
                  then st\<lparr>logged := logged st @
                          [(INFO, ''########## Unsupported drive type ##########'')]\<rparr>
                  else st);
            command_status = ''Not OK'';
            smart_data = base_smart_data row
        in if row ! 2 = ''NVME''
           then query_drive w st row (nvme_command row) (parse_nvme (max_str_digits w)) smart_data
           else if row ! 2 = ''SATA''
           then query_drive w st row (smart_command row) parse_sata smart_data
           else if row ! 2 = ''DISK''
           then query_drive w st row (smart_command row) parse_disk smart_data
           else (Inr (command_status, smart_data), st))"

text \<open>What one pass through the loop body does to the loop.\<close>

datatype flow = Continue | Break | Raise error

definition server_key :: "string list \<Rightarrow> string" where
  "server_key row = row ! 0 @ '' ('' @ row ! 1 @ '')''"

text \<open>The whole loop body: lines 89 to 249.\<close>

definition process_row :: "world \<Rightarrow> run_state \<Rightarrow> string list \<Rightarrow> flow \<times> run_state" where
  "process_row w st row =
     (case read_drive w st row of
        (Inl e, st) \<Rightarrow> (Raise e, st)
      | (Inr (command_status, smart_data), st) \<Rightarrow>
          let st = (if servers st (server_key row) = None
                    then st\<lparr>servers := (servers st)(server_key row \<mapsto> [])\<rparr> else st)
          in if command_status = ''OK''
             then (Continue,
                   st\<lparr>servers := (servers st)(server_key row \<mapsto>
                                     the (servers st (server_key row)) @ [smart_data]),
                      logged := logged st @
                        [(INFO, ''########## Command for '' @ row ! 0 @ '', drive '' @ row ! 3
                                  @ '' successful ##########'')]\<rparr>)
             else (Break,
                   st\<lparr>logged := logged st @
                        [(INFO, ''########## Command for '' @ row ! 0 @ '', drive '' @ row ! 3
                                  @ '' unsuccessful ##########'')]\<rparr>))"

text \<open>The \<^verbatim>\<open>for\<close> loop: the exception that ended it, if any, and the state reached.\<close>

fun main_loop :: "world \<Rightarrow> run_state \<Rightarrow> string list list \<Rightarrow> error option \<times> run_state" where
  "main_loop w st [] = (None, st)"
| "main_loop w st (row # rest) =
     (case process_row w st row of
        (Continue, st') \<Rightarrow> main_loop w st' rest
      | (Break, st') \<Rightarrow> (None, st')
      | (Raise e, st') \<Rightarrow> (Some e, st'))"

section \<open>Notions used in the statements\<close>

text \<open>The keys under which the NVME loop stores a value.\<close>

definition nvme_targets :: "string list" where
  "nvme_targets =
     [''NVM Subsystem Reliability Degradation'', ''Volatile Memory Backup Device Failure'',
      ''Drive Temperature (Celcius)'', ''Available Spare (%)'', ''Available Spare Threshold (%)'',
      ''Percentage Used (%)'', ''Unsafe Shutdowns'', ''Media Errors'',
      ''Number of Error Info Log Entries'']"

text \<open>The number that a string of hexadecimal digits denotes.\<close>

definition base16_value :: "string \<Rightarrow> nat" where
  "base16_value ds = foldl (\<lambda>v c. v * 16 + the (digit_val c)) 0 ds"

text \<open>
  The \<^verbatim>\<open>if\<close> statements of the SATA and of the DISK loop, in their order: the label
  looked for, the key written, and the index of the token taken.
\<close>

definition sata_fields :: "(string \<times> string \<times> nat) list" where
  "sata_fields =
     [(''Health Status'', ''Health Status'', 0),
      (''Drive Temperature'', ''Drive Temperature (Celcius)'', 3),
      (''Media Wearout Indicator'', ''Media Wearout Indicator'', 3),
      (''Reallocated Sector Count'', ''Reallocated Sector Count'', 3),
      (''Write Sectors TOT Count'', ''Write Sectors TOT Count'', 3),
      (''Read Sectors TOT Count'', ''Read Sectors TOT Count'', 3),
      (''Initial Bad Block Count'', ''Initial Bad Block Count'', 3),
      (''Program Fail Count'', ''Program Fail Count'', 3),
      (''Erase Fail Count'', ''Erase Fail Count'', 3),
      (''Uncorrectable Error Count'', ''Uncorrectable Error Count'', 3),
      (''Pending Sector Reallocation Count'', ''Pending Sector Reallocation Count'', 3)]"

definition disk_fields :: "(string \<times> string \<times> nat) list" where
  "disk_fields =
     [(''Health Status'', ''Health Status'', 0),
      (''Drive Temperature'', ''Drive Temperature (Celcius)'', 3),
      (''Read Error Count'', ''Read Error Count'', 3),
      (''Reallocated Sector Count'', ''Reallocated Sector Count'', 3),
      (''Sector Reallocation Event Count'', ''Sector Reallocation Event Count'', 3),
      (''Pending Sector Reallocation Count'', ''Pending Sector Reallocation Count'', 3),
      (''Uncorrectable Sector Count'', ''Uncorrectable Sector Count'', 3)]"

fun run_fields :: "(string \<times> string \<times> nat) list \<Rightarrow> smart_data \<Rightarrow> string \<Rightarrow> error + smart_data" where
  "run_fields [] smart line = Inr smart"
| "run_fields ((label, key, i) # fs) smart line =
     and_then (smart_field label key i line smart) (\<lambda>smart. run_fields fs smart line)"

text \<open>The tokens that an \<^verbatim>\<open>if\<close> statement of these loops indexes.\<close>

definition field_tokens :: "string \<Rightarrow> string \<Rightarrow> string list" where
  "field_tokens label line = py_split (py_strip_chars label line)"

text \<open>
  The extraction as the specification words it: the label, as a substring, is removed
  from the line, and the token at the index is taken from what remains.
\<close>

fun remove_substring :: "string \<Rightarrow> string \<Rightarrow> string" where
  "remove_substring sub [] = []"
| "remove_substring sub (c # cs) =
     (if take (length sub) (c # cs) = sub then drop (length sub) (c # cs)
      else c # remove_substring sub cs)"

definition spec_field_value :: "string \<Rightarrow> nat \<Rightarrow> string \<Rightarrow> error + string" where
  "spec_field_value label i line = py_index (py_split (remove_substring label line)) i"

text \<open>The keys that the NVME loop tests, and the key of a raw line: \<^verbatim>\<open>line[0]\<close>.\<close>

definition nvme_keys :: "string list" where
  "nvme_keys =
     [''NVM Subsystem Reliability Degradation'', ''Volatile Memory Backup Device Failure'',
      ''Composite Temperature'', ''Available Spare'', ''Available Spare Threshold'',
      ''Percentage Used'', ''Unsafe Shutdowns'', ''Media Errors'',
      ''Number of Error Info Log Entries'']"

definition nvme_key :: "string \<Rightarrow> string" where
  "nvme_key raw = hd (py_split_on CHR '':'' (py_strip raw))"

text \<open>A line has, for each label it contains, a token at the index that is read.\<close>

definition fields_ok :: "(string \<times> string \<times> nat) list \<Rightarrow> string \<Rightarrow> bool" where
  "fields_ok fs line =
     list_all (\<lambda>(label, key, i).
       if py_in label line then i < length (field_tokens label line) else True) fs"

text \<open>A line contains none of the labels.\<close>

definition no_label :: "(string \<times> string \<times> nat) list \<Rightarrow> string \<Rightarrow> bool" where
  "no_label fs line = list_all (\<lambda>(label, key, i). \<not> py_in label line) fs"

text \<open>The command that the loop body runs for a row of a supported drive type.\<close>

definition drive_command :: "string list \<Rightarrow> string" where
  "drive_command row = (if row ! 2 = ''NVME'' then nvme_command row else smart_command row)"

text \<open>What the SSH library does for the command of a row.\<close>

definition row_client :: "world \<Rightarrow> string list \<Rightarrow> paramiko" where
  "row_client w row =
     ssh_hosts w (row ! 1) (esxi_user w) (env w ''ESXI_PASS'') (drive_command row)"

text \<open>The remote command of a row was run and \<^verbatim>\<open>esxi_command\<close> returned the status
  \<^verbatim>\<open>'OK'\<close>.\<close>

definition reported_ok :: "world \<Rightarrow> string list \<Rightarrow> bool" where
  "reported_ok w row =
     (row ! 2 \<in> set drive_types \<and>
      (case fst (esxi_command (ssh_hosts w) (row ! 1) (esxi_user w) (env w ''ESXI_PASS'')
                   (drive_command row) []) of
         None \<Rightarrow> False
       | Some (lines, status) \<Rightarrow> status = ''OK''))"

text \<open>The records of a server in the collection; none when the key is absent.\<close>

definition records :: "run_state \<Rightarrow> string \<Rightarrow> smart_data list" where
  "records st k = (case servers st k of None \<Rightarrow> [] | Some rs \<Rightarrow> rs)"

text \<open>The first log entry of a pass through the loop body.\<close>

definition start_entry :: "string list \<Rightarrow> level \<times> string" where
  "start_entry row =
     (INFO, ''########## Starting CSV iteration for '' @ row ! 0 @ '' drive '' @ row ! 3
              @ '' ##########'')"

text \<open>
  A world for the examples: the host \<^verbatim>\<open>10.0.0.1\<close> answers every command with one line
  of SMART output, every other host is unreachable.
\<close>

definition example_world :: world where
  "example_world =
     \<lparr>env = [''ESXI_USER'' \<mapsto> ''root'', ''ESXI_PASS'' \<mapsto> ''secret''],
      ssh_hosts = (\<lambda>host user password command.
                     if host = ''10.0.0.1''
                     then \<lparr>connect = Inr (), exec_command = Inr (),
                           readlines = Inr [''Health Status  OK  N/A  N/A  N/A'']\<rparr>
                     else \<lparr>connect = Inl ''timed out'', exec_command = Inr (),
                           readlines = Inr []\<rparr>),
      same_object = False, max_str_digits = 4300\<rparr>"

definition empty_state :: run_state where
  "empty_state = \<lparr>servers = Map.empty, logged = []\<rparr>"

text \<open>
  The layout that the SATA and DISK loops expect of a line: after the label, blanks, and
  then columns whose first and last character do not occur in the label.
\<close>

definition columns_after :: "string \<Rightarrow> string \<Rightarrow> string \<Rightarrow> bool" where
  "columns_after label ws body =
     (set ws \<subseteq> {CHR '' ''} \<and> body \<noteq> [] \<and> hd body \<notin> set label \<and> last body \<notin> set label)"

section \<open>Sequencing\<close>

lemma and_then_Inr [simp]: "and_then (Inr x) f = f x"
  by (simp add: and_then_def)

lemma and_then_Inl [simp]: "and_then (Inl e) f = Inl e"
  by (simp add: and_then_def)

lemma and_then_eq_Inr: "and_then r f = Inr y \<longleftrightarrow> (\<exists>x. r = Inr x \<and> f x = Inr y)"
  by (cases r) simp_all

section \<open>Splitting at a separator\<close>

text \<open>\<^verbatim>\<open>s.split(sep)\<close> has a first piece, so \<^verbatim>\<open>line[0]\<close> never raises.\<close>

lemma split_on_acc_nonempty: "split_on_acc sep acc s \<noteq> []"
  by (induction s arbitrary: acc) simp_all

lemma py_split_on_first:
  "py_index (py_split_on sep s) 0 = Inr (hd (py_split_on sep s))"
proof -
  have "py_split_on sep s \<noteq> []"
    by (simp add: py_split_on_def split_on_acc_nonempty)
  then show ?thesis
    by (cases "py_split_on sep s") (simp_all add: py_index_def)
qed

section \<open>The NVME loop leaves the other keys alone\<close>

lemma nvme_verbatim_frame:
  "nvme_verbatim key line s = Inr s' \<Longrightarrow> k \<noteq> key \<Longrightarrow> s' k = s k"
  by (auto simp: nvme_verbatim_def and_then_eq_Inr split: if_splits)

lemma nvme_temperature_frame:
  "nvme_temperature line s = Inr s' \<Longrightarrow> k \<noteq> ''Drive Temperature (Celcius)'' \<Longrightarrow> s' k = s k"
  by (auto simp: nvme_temperature_def and_then_eq_Inr split: if_splits)

lemma nvme_percent_frame:
  "nvme_percent maxd key line s = Inr s' \<Longrightarrow> k \<noteq> key @ '' (%)'' \<Longrightarrow> s' k = s k"
  by (auto simp: nvme_percent_def and_then_eq_Inr split: if_splits)

lemma nvme_hex_frame:
  "nvme_hex key line s = Inr s' \<Longrightarrow> k \<noteq> key \<Longrightarrow> s' k = s k"
  by (auto simp: nvme_hex_def and_then_eq_Inr split: if_splits)

lemma nvme_line_frame:
  assumes "nvme_line maxd s raw = Inr s'" and "k \<notin> set nvme_targets"
  shows "s' k = s k"
proof -
  from assms(2) have k:
    "k \<noteq> ''NVM Subsystem Reliability Degradation''"
    "k \<noteq> ''Volatile Memory Backup Device Failure''"
    "k \<noteq> ''Drive Temperature (Celcius)''"
    "k \<noteq> ''Available Spare'' @ '' (%)''"
    "k \<noteq> ''Available Spare Threshold'' @ '' (%)''"
    "k \<noteq> ''Percentage Used'' @ '' (%)''"
    "k \<noteq> ''Unsafe Shutdowns''" "k \<noteq> ''Media Errors''"
    "k \<noteq> ''Number of Error Info Log Entries''"
    by (auto simp: nvme_targets_def)
  define line where "line = py_split_on CHR '':'' (py_strip raw)"
  from assms(1) obtain s1 s2 s3 s4 s5 s6 s7 s8 where steps:
    "nvme_verbatim ''NVM Subsystem Reliability Degradation'' line s = Inr s1"
    "nvme_verbatim ''Volatile Memory Backup Device Failure'' line s1 = Inr s2"
    "nvme_temperature line s2 = Inr s3"
    "nvme_percent maxd ''Available Spare'' line s3 = Inr s4"
    "nvme_percent maxd ''Available Spare Threshold'' line s4 = Inr s5"
    "nvme_percent maxd ''Percentage Used'' line s5 = Inr s6"
    "nvme_hex ''Unsafe Shutdowns'' line s6 = Inr s7"
    "nvme_hex ''Media Errors'' line s7 = Inr s8"
    "nvme_hex ''Number of Error Info Log Entries'' line s8 = Inr s'"
    unfolding nvme_line_def Let_def and_then_eq_Inr line_def by blast
  have "s1 k = s k" using steps(1) k(1) by (rule nvme_verbatim_frame)
  moreover have "s2 k = s1 k" using steps(2) k(2) by (rule nvme_verbatim_frame)
  moreover have "s3 k = s2 k" using steps(3) k(3) by (rule nvme_temperature_frame)
  moreover have "s4 k = s3 k" using steps(4) k(4) by (rule nvme_percent_frame)
  moreover have "s5 k = s4 k" using steps(5) k(5) by (rule nvme_percent_frame)
  moreover have "s6 k = s5 k" using steps(6) k(6) by (rule nvme_percent_frame)
  moreover have "s7 k = s6 k" using steps(7) k(7) by (rule nvme_hex_frame)
  moreover have "s8 k = s7 k" using steps(8) k(8) by (rule nvme_hex_frame)
  moreover have "s' k = s8 k" using steps(9) k(9) by (rule nvme_hex_frame)
  ultimately show ?thesis by simp
qed

lemma nvme_lines_frame:
  "nvme_lines maxd s lines = Inr s' \<Longrightarrow> k \<notin> set nvme_targets \<Longrightarrow> s' k = s k"
proof (induction lines arbitrary: s)
  case Nil
  then show ?case by simp
next
  case (Cons raw rest)
  then obtain s1 where "nvme_line maxd s raw = Inr s1" "nvme_lines maxd s1 rest = Inr s'"
    by (auto simp: and_then_eq_Inr)
  with Cons.IH [of s1] Cons.prems(2) nvme_line_frame [of maxd s raw s1 k] show ?case
    by simp
qed

lemmas nvme_eval =
  parse_nvme_def nvme_line_def nvme_verbatim_def nvme_temperature_def nvme_percent_def
  nvme_hex_def nvme_verdict_def py_getitem_def base_smart_data_def py_split_on_def
  py_split_def py_strip_def is_space_def py_index_def py_int_def py_int16_def py_int_base_def
  skip_sign_def skip_hex_prefix_def int_space_def is_digit_def digit_val_def

section \<open>The health verdict of an NVME drive\<close>

text \<open>
  Claim C1. When the NVME parser, started on the base record of an inventory row, returns
  a record that holds an integer under \<^verbatim>\<open>Available Spare (%)\<close> and under
  \<^verbatim>\<open>Available Spare Threshold (%)\<close>, the record's \<^verbatim>\<open>Health Status\<close> is \<^verbatim>\<open>Not OK\<close> if
  the spare is at most the threshold, and the default \<^verbatim>\<open>OK\<close> otherwise.
\<close>

theorem nvme_health_verdict:
  assumes "parse_nvme maxd (base_smart_data row) lines = Inr smart"
    and "smart ''Available Spare (%)'' = Some (VInt spare)"
    and "smart ''Available Spare Threshold (%)'' = Some (VInt threshold)"
  shows "smart ''Health Status'' = Some (VStr (if spare \<le> threshold then ''Not OK'' else ''OK''))"
proof -
  from assms(1) obtain s1 where
    lines: "nvme_lines maxd (base_smart_data row) lines = Inr s1" and
    verdict: "nvme_verdict s1 = Inr smart"
    by (auto simp: parse_nvme_def and_then_eq_Inr)
  have "''Health Status'' \<notin> set nvme_targets"
    by (simp add: nvme_targets_def)
  with lines have "s1 ''Health Status'' = base_smart_data row ''Health Status''"
    by (rule nvme_lines_frame)
  then have hs: "s1 ''Health Status'' = Some (VStr ''OK'')"
    by (simp add: base_smart_data_def)
  from verdict obtain a b le where
    a: "py_getitem s1 ''Available Spare (%)'' = Inr a" and
    b: "py_getitem s1 ''Available Spare Threshold (%)'' = Inr b" and
    le: "py_le a b = Inr le" and
    smart: "smart = (if le then s1(''Health Status'' \<mapsto> VStr ''Not OK'') else s1)"
    by (auto simp: nvme_verdict_def and_then_eq_Inr)
  from smart assms(2) have "s1 ''Available Spare (%)'' = Some (VInt spare)"
    by (simp split: if_splits)
  with a have a': "a = VInt spare"
    by (simp add: py_getitem_def)
  from smart assms(3) have "s1 ''Available Spare Threshold (%)'' = Some (VInt threshold)"
    by (simp split: if_splits)
  with b have b': "b = VInt threshold"
    by (simp add: py_getitem_def)
  from le a' b' have "le = (spare \<le> threshold)"
    by auto
  with smart hs show ?thesis
    by simp
qed

text \<open>The two examples of the specification: 5 against 10, and 50 against 10.\<close>

theorem nvme_health_verdict_witness:
  "(\<exists>smart. parse_nvme 4300 (base_smart_data [''esx1'', ''10.0.0.1'', ''NVME'', ''nvme0''])
              [''Available Spare: 5%'', ''Available Spare Threshold: 10%''] = Inr smart
           \<and> smart ''Available Spare (%)'' = Some (VInt 5)
           \<and> smart ''Available Spare Threshold (%)'' = Some (VInt 10)
           \<and> smart ''Health Status'' = Some (VStr ''Not OK''))
   \<and> (\<exists>smart. parse_nvme 4300 (base_smart_data [''esx1'', ''10.0.0.1'', ''NVME'', ''nvme0''])
              [''Available Spare Threshold: 10%'', ''Available Spare: 50%''] = Inr smart
           \<and> smart ''Available Spare (%)'' = Some (VInt 50)
           \<and> smart ''Available Spare Threshold (%)'' = Some (VInt 10)
           \<and> smart ''Health Status'' = Some (VStr ''OK''))"
proof -
  let ?base = "base_smart_data [''esx1'', ''10.0.0.1'', ''NVME'', ''nvme0'']"
  let ?low = "?base(''Available Spare (%)'' \<mapsto> VInt 5,
                    ''Available Spare Threshold (%)'' \<mapsto> VInt 10,
                    ''Health Status'' \<mapsto> VStr ''Not OK'')"
  let ?high = "?base(''Available Spare Threshold (%)'' \<mapsto> VInt 10,
                     ''Available Spare (%)'' \<mapsto> VInt 50)"
  have low: "parse_nvme 4300 ?base [''Available Spare: 5%'', ''Available Spare Threshold: 10%'']
               = Inr ?low"
    by (simp add: nvme_eval)
  have high: "parse_nvme 4300 ?base [''Available Spare Threshold: 10%'', ''Available Spare: 50%'']
               = Inr ?high"
    by (simp add: nvme_eval)
  have "?low ''Health Status'' = Some (VStr ''Not OK'')"
    using nvme_health_verdict [OF low, of 5 10] by simp
  moreover have "?high ''Health Status'' = Some (VStr ''OK'')"
    using nvme_health_verdict [OF high, of 50 10] by simp
  ultimately show ?thesis
    using low high by simp
qed

section \<open>Reading integers\<close>

lemma digit_not_space: "is_digit b c \<Longrightarrow> \<not> int_space c"
  by (auto simp: is_digit_def digit_val_def int_space_def Let_def split: if_splits)

lemma digit_not_special:
  assumes "is_digit 16 c"
  shows "c \<noteq> CHR ''+''" "c \<noteq> CHR ''-''" "c \<noteq> CHR ''_''" "c \<noteq> CHR ''x''" "c \<noteq> CHR ''X''"
  using assms by (auto simp: is_digit_def digit_val_def)

lemma scan_digits_all:
  "list_all (is_digit b) ds \<Longrightarrow>
     scan_digits b False v n ds
       = Some (foldl (\<lambda>v c. v * b + the (digit_val c)) v ds, n + length ds, [])"
proof (induction ds arbitrary: v n)
  case Nil
  then show ?case by simp
next
  case (Cons c cs)
  then have "is_digit b c" "list_all (is_digit b) cs" by simp_all
  moreover from \<open>is_digit b c\<close> have "c \<noteq> CHR ''_''"
    by (auto simp: is_digit_def digit_val_def)
  ultimately show ?case using Cons.IH by simp
qed

lemma skip_hex_prefix_digits: "list_all (is_digit 16) ds \<Longrightarrow> skip_hex_prefix ds = ds"
  by (auto simp: skip_hex_prefix_def split: list.splits dest: digit_not_special)

lemma py_int16_digits:
  assumes "ds \<noteq> []" and "list_all (is_digit 16) ds"
  shows "py_int16 ds = Inr (int (base16_value ds))"
proof -
  from assms obtain c cs where ds: "ds = c # cs" and c: "is_digit 16 c"
    by (cases ds) auto
  from c have "dropWhile int_space ds = ds"
    by (simp add: ds digit_not_space)
  moreover from c have "skip_sign ds = (False, ds)"
    by (simp add: skip_sign_def ds digit_not_special)
  moreover from c have "take 1 ds \<noteq> ''_''"
    by (simp add: ds digit_not_special)
  ultimately show ?thesis
    using assms scan_digits_all [OF assms(2), of 0 0]
    by (simp add: py_int16_def py_int_base_def skip_hex_prefix_digits base16_value_def)
qed

section \<open>NVME lines whose key is not the one tested\<close>

lemma and_then_Inr_right [simp]: "and_then r Inr = r"
  by (cases r) simp_all

lemma nvme_verbatim_skip: "hd line \<noteq> key \<Longrightarrow> nvme_verbatim key line = Inr"
  by (rule ext) (simp add: nvme_verbatim_def)

lemma nvme_temperature_skip:
  "hd line \<noteq> ''Composite Temperature'' \<Longrightarrow> nvme_temperature line = Inr"
  by (rule ext) (simp add: nvme_temperature_def)

lemma nvme_percent_skip: "hd line \<noteq> key \<Longrightarrow> nvme_percent maxd key line = Inr"
  by (rule ext) (simp add: nvme_percent_def)

lemma nvme_hex_skip: "hd line \<noteq> key \<Longrightarrow> nvme_hex key line = Inr"
  by (rule ext) (simp add: nvme_hex_def)

lemmas nvme_skip =
  nvme_verbatim_skip nvme_temperature_skip nvme_percent_skip nvme_hex_skip

lemma nvme_line_hex_key:
  assumes "key \<in> {''Unsafe Shutdowns'', ''Media Errors'', ''Number of Error Info Log Entries''}"
    and "py_split_on CHR '':'' (py_strip raw) = key # rest"
  shows "nvme_line maxd smart raw = nvme_hex key (key # rest) smart"
proof -
  from assms(1) consider "key = ''Unsafe Shutdowns''" | "key = ''Media Errors''"
    | "key = ''Number of Error Info Log Entries''"
    by auto
  then show ?thesis
  proof cases
    case 1
    with assms(2) show ?thesis
      by (simp add: nvme_line_def Let_def nvme_skip)
  next
    case 2
    with assms(2) show ?thesis
      by (simp add: nvme_line_def Let_def nvme_skip)
  next
    case 3
    with assms(2) show ?thesis
      by (simp add: nvme_line_def Let_def nvme_skip)
  qed
qed

section \<open>The hexadecimal counters of an NVME drive\<close>

text \<open>
  Claim C6. On an NVME line whose key (the text before the first colon of the stripped
  line) is \<^verbatim>\<open>Unsafe Shutdowns\<close>, \<^verbatim>\<open>Media Errors\<close> or
  \<^verbatim>\<open>Number of Error Info Log Entries\<close> and whose value (the text up to the next colon,
  stripped) is \<^verbatim>\<open>0x\<close> followed by hexadecimal digits, the loop body stores under that
  key the integer that the digits denote in base 16, and changes nothing else.
\<close>

theorem nvme_hex_fields:
  assumes "key \<in> {''Unsafe Shutdowns'', ''Media Errors'', ''Number of Error Info Log Entries''}"
    and "py_split_on CHR '':'' (py_strip raw) = key # v # rest"
    and "py_strip v = ''0x'' @ ds" and "ds \<noteq> []" and "list_all (is_digit 16) ds"
  shows "nvme_line maxd smart raw = Inr (smart(key \<mapsto> VInt (int (base16_value ds))))"
proof -
  have "py_int16 (drop 2 (py_strip v)) = Inr (int (base16_value ds))"
    using py_int16_digits [OF assms(4,5)] by (simp add: assms(3))
  then have "nvme_hex key (key # v # rest) smart
               = Inr (smart(key \<mapsto> VInt (int (base16_value ds))))"
    by (simp add: nvme_hex_def py_index_def)
  with nvme_line_hex_key [OF assms(1,2)] show ?thesis
    by simp
qed

text \<open>The example of the specification: \<^verbatim>\<open>0x1a\<close> is stored as 26.\<close>

theorem nvme_hex_fields_witness:
  "nvme_line 4300 Map.empty ''Unsafe Shutdowns: 0x1a'' = Inr [''Unsafe Shutdowns'' \<mapsto> VInt 26]"
proof -
  have key: "''Unsafe Shutdowns''
               \<in> {''Unsafe Shutdowns'', ''Media Errors'', ''Number of Error Info Log Entries''}"
    by simp
  have line: "py_split_on CHR '':'' (py_strip ''Unsafe Shutdowns: 0x1a'')
                = ''Unsafe Shutdowns'' # '' 0x1a'' # []"
    by (simp add: py_split_on_def py_strip_def is_space_def)
  have v: "py_strip '' 0x1a'' = ''0x'' @ ''1a''"
    by (simp add: py_strip_def is_space_def)
  have ds: "''1a'' \<noteq> []" "list_all (is_digit 16) ''1a''"
    by (simp_all add: is_digit_def digit_val_def)
  have "base16_value ''1a'' = 26"
    by (simp add: base16_value_def digit_val_def)
  with nvme_hex_fields [OF key line v ds, of 4300 Map.empty] show ?thesis
    by simp
qed

section \<open>Floats on concrete input\<close>

lemma bit_length_0: "bit_length 0 = 0"
  by (simp add: bit_length.simps)

lemma bit_length_pos: "0 < n \<Longrightarrow> bit_length n = Suc (bit_length (n div 2))"
  by (subst bit_length.simps) simp

lemmas float_eval =
  py_float_def int_space_def is_digit_def digit_val_def skip_sign_def parse_decimal_def
  digits_val_def lower_code_def matches_word_def to_double_def floor_log2_def ge_pow2_def round_half_even_def
  bit_length_0 bit_length_pos kelvin_offset_def Let_def

text \<open>Rounding a quotient gives an integer at most one half away from it.\<close>

lemma round_half_even_nearest:
  assumes "0 < d"
  shows "2 * \<bar>int (round_half_even n d) * int d - int n\<bar> \<le> int d"
proof -
  define q r where "q = n div d" and "r = n mod d"
  have n: "int n = int q * int d + int r"
    unfolding q_def r_def by (metis div_mult_mod_eq of_nat_add of_nat_mult)
  have r: "r < d"
    unfolding r_def using assms by simp
  show ?thesis
    using r n unfolding round_half_even_def Let_def q_def [symmetric] r_def [symmetric]
    by (auto simp: algebra_simps)
qed

text \<open>
  Values to compare with the interpreter (\<^verbatim>\<open>float(s).hex()\<close>, \<^verbatim>\<open>round(x)\<close>): among them a
  decimal half-way between two floats, and the ties of \<^verbatim>\<open>round\<close>.
\<close>

lemma float_known_answers:
  "py_float ''0.1'' = Inr (Finite 7205759403792794 (- 56))"
  "py_float ''273.15'' = Inr (Finite 4805305618032230 (- 44))"
  "py_float ''1e23'' = Inr (Finite 5960464477539062 24)"
  "py_float ''9007199254740993'' = Inr (Finite 4503599627370496 1)"
  "py_float ''-2.5'' = Inr (Finite (- 5629499534213120) (- 51))"
  "py_float ''1_0.5e0'' = Inr (Finite 5910974510923776 (- 49))"
  "py_float ''inf'' = Inr (Infinity False)"
  "py_float ''-Infinity'' = Inr (Infinity True)"
  "py_float ''NaN'' = Inr NaN"
  "py_float ''K'' = Inl ValueError"
  "py_float ''1._5'' = Inl ValueError"
  "py_float ''0x10'' = Inl ValueError"
  "py_float ''1e'' = Inl ValueError"
  by (simp_all add: float_eval)

lemma round_known_answers:
  "py_round (Finite 1 (- 1)) = Inr 0"
  "py_round (Finite 3 (- 1)) = Inr 2"
  "py_round (Finite 5 (- 1)) = Inr 2"
  "py_round (Finite (- 3) (- 1)) = Inr (- 2)"
  "py_round (Finite (- 1) (- 1)) = Inr 0"
  "py_round (Finite 7 (- 2)) = Inr 2"
  "py_round (Infinity False) = Inl OverflowError"
  "py_round NaN = Inl ValueError"
  by (simp_all add: round_half_even_def Let_def)

section \<open>The temperature of an NVME drive\<close>

lemma nvme_line_temperature_key:
  assumes "py_split_on CHR '':'' (py_strip raw) = ''Composite Temperature'' # rest"
  shows "nvme_line maxd smart raw = nvme_temperature (''Composite Temperature'' # rest) smart"
  using assms by (simp add: nvme_line_def Let_def nvme_skip)

text \<open>
  Claim C5. On an NVME line whose key is \<^verbatim>\<open>Composite Temperature\<close> and whose value
  starts with a token that \<^verbatim>\<open>float\<close> reads, the loop body stores under
  \<^verbatim>\<open>Drive Temperature (Celcius)\<close> the integer \<^verbatim>\<open>round(kelvin - 273.15)\<close>, for the
  subtraction of binary64 floats and the rounding of \<^verbatim>\<open>round\<close> (to the nearest integer,
  a tie to the even one), and changes nothing else.
\<close>

theorem nvme_temperature_celsius:
  assumes "py_split_on CHR '':'' (py_strip raw) = ''Composite Temperature'' # v # rest"
    and "py_split v = tok # toks"
    and "py_float tok = Inr kelvin"
    and "py_round (float_sub kelvin kelvin_offset) = Inr temp"
  shows "nvme_line maxd smart raw = Inr (smart(''Drive Temperature (Celcius)'' \<mapsto> VInt temp))"
proof -
  have "nvme_temperature (''Composite Temperature'' # v # rest) smart
          = Inr (smart(''Drive Temperature (Celcius)'' \<mapsto> VInt temp))"
    by (simp add: nvme_temperature_def py_index_def assms(2-4))
  with nvme_line_temperature_key [OF assms(1)] show ?thesis
    by simp
qed

text \<open>The example of the specification: \<^verbatim>\<open>300.15 K\<close> is stored as 27.\<close>

theorem nvme_temperature_celsius_witness:
  "nvme_line 4300 Map.empty ''Composite Temperature: 300.15 K''
     = Inr [''Drive Temperature (Celcius)'' \<mapsto> VInt 27]"
proof -
  have line: "py_split_on CHR '':'' (py_strip ''Composite Temperature: 300.15 K'')
                = ''Composite Temperature'' # '' 300.15 K'' # []"
    by (simp add: py_split_on_def py_strip_def is_space_def)
  have toks: "py_split '' 300.15 K'' = ''300.15'' # [''K'']"
    by (simp add: py_split_def is_space_def)
  have kelvin: "py_float ''300.15'' = Inr (Finite 5280294641231462 (- 44))"
    by (simp add: float_eval)
  have temp: "py_round (float_sub (Finite 5280294641231462 (- 44)) kelvin_offset) = Inr 27"
    by (simp add: float_eval)
  from nvme_temperature_celsius [OF line toks kelvin temp, of 4300 Map.empty] show ?thesis .
qed

text \<open>
  The scenario of the specification with one NVME drive: a spare of 3 percent against a
  threshold of 10 percent and a temperature of \<^verbatim>\<open>295.15 K\<close>.
\<close>

lemma nvme_scenario:
  "\<exists>smart. parse_nvme 4300 (base_smart_data [''esx1'', ''10.0.0.1'', ''NVME'', ''nvme0''])
             [''Composite Temperature: 295.15 K'', ''Available Spare: 3%'',
              ''Available Spare Threshold: 10%''] = Inr smart
      \<and> smart ''Health Status'' = Some (VStr ''Not OK'')
      \<and> smart ''Drive Temperature (Celcius)'' = Some (VInt 22)"
  by (simp add: nvme_eval float_eval)

section \<open>The SATA and DISK loop bodies, field by field\<close>

lemma sata_line_fields: "sata_line smart line = run_fields sata_fields smart line"
  by (simp add: sata_line_def sata_fields_def)

lemma disk_line_fields: "disk_line smart line = run_fields disk_fields smart line"
  by (simp add: disk_line_def disk_fields_def)

lemma smart_field_frame:
  "smart_field label key i line s = Inr s' \<Longrightarrow> k \<noteq> key \<Longrightarrow> s' k = s k"
  by (auto simp: smart_field_def and_then_eq_Inr split: if_splits)

lemma run_fields_frame:
  "run_fields fs s line = Inr s' \<Longrightarrow> k \<notin> set (map (\<lambda>(label, key, i). key) fs)
     \<Longrightarrow> s' k = s k"
proof (induction fs arbitrary: s)
  case Nil
  then show ?case by simp
next
  case (Cons f fs)
  obtain label key i where f: "f = (label, key, i)"
    by (cases f)
  from Cons.prems(1) obtain s1 where
    first: "smart_field label key i line s = Inr s1" and
    rest: "run_fields fs s1 line = Inr s'"
    by (auto simp: f and_then_eq_Inr)
  from Cons.prems(2) have "k \<noteq> key" "k \<notin> set (map (\<lambda>(label, key, i). key) fs)"
    by (simp_all add: f)
  with Cons.IH [OF rest] smart_field_frame [OF first] show ?case
    by simp
qed

lemma smart_field_value:
  assumes "smart_field label key i line s = Inr s'" and "py_in label line"
  shows "i < length (field_tokens label line)
         \<and> s' key = Some (VStr (field_tokens label line ! i))"
  using assms
  by (auto simp: smart_field_def field_tokens_def py_index_def and_then_eq_Inr split: if_splits)

lemma run_fields_value:
  assumes "run_fields fs s line = Inr s'"
    and "distinct (map (\<lambda>(label, key, i). key) fs)"
    and "(label, key, i) \<in> set fs"
    and "py_in label line"
  shows "i < length (field_tokens label line)
         \<and> s' key = Some (VStr (field_tokens label line ! i))"
  using assms
proof (induction fs arbitrary: s)
  case Nil
  then show ?case by simp
next
  case (Cons f fs)
  obtain label' key' i' where f: "f = (label', key', i')"
    by (cases f)
  from Cons.prems(1) obtain s1 where
    first: "smart_field label' key' i' line s = Inr s1" and
    rest: "run_fields fs s1 line = Inr s'"
    by (auto simp: f and_then_eq_Inr)
  from Cons.prems(2) have
    fresh: "key' \<notin> set (map (\<lambda>(label, key, i). key) fs)" and
    dist: "distinct (map (\<lambda>(label, key, i). key) fs)"
    by (simp_all add: f)
  show ?case
  proof (cases "(label, key, i) = f")
    case True
    with f have same: "label' = label" "key' = key" "i' = i"
      by simp_all
    from run_fields_frame [OF rest fresh] have "s' key = s1 key"
      by (simp add: same)
    with smart_field_value [OF first [unfolded same] Cons.prems(4)] show ?thesis
      by simp
  next
    case False
    with Cons.prems(3) have "(label, key, i) \<in> set fs"
      by simp
    from Cons.IH [OF rest dist this Cons.prems(4)] show ?thesis .
  qed
qed

lemma sata_fields_distinct: "distinct (map (\<lambda>(label, key, i). key) sata_fields)"
  by (simp add: sata_fields_def)

lemma disk_fields_distinct: "distinct (map (\<lambda>(label, key, i). key) disk_fields)"
  by (simp add: disk_fields_def)


lemma py_in_prefix: "py_in label (label @ rest)"
proof (cases "label @ rest")
  case Nil
  then show ?thesis by simp
next
  case (Cons c cs)
  have "take (length label) (label @ rest) = label"
    by simp
  then have "take (length label) (c # cs) = label"
    by (simp only: Cons)
  then show ?thesis
    by (simp only: Cons py_in.simps) simp
qed

lemma split_ws_acc_spaces:
  "\<forall>c\<in>set ws. is_space c \<Longrightarrow> split_ws_acc [] (ws @ body) = split_ws_acc [] body"
  by (induction ws) simp_all

lemma py_split_spaces: "set ws \<subseteq> {CHR '' ''} \<Longrightarrow> py_split (ws @ body) = py_split body"
proof -
  assume "set ws \<subseteq> {CHR '' ''}"
  moreover have "is_space CHR '' ''"
    by (simp add: is_space_def)
  ultimately have "\<forall>c\<in>set ws. is_space c"
    by auto
  then show ?thesis
    by (simp add: py_split_def split_ws_acc_spaces)
qed

lemma dropWhile_all: "\<forall>c\<in>set xs. P c \<Longrightarrow> dropWhile P (xs @ ys) = dropWhile P ys"
  by (induction xs) simp_all

lemma py_strip_chars_layout:
  assumes "set ws \<subseteq> set label" and "body \<noteq> []"
    and "hd body \<notin> set label" and "last body \<notin> set label"
  shows "py_strip_chars label (label @ ws @ body) = body"
proof -
  let ?P = "\<lambda>c. c \<in> set label"
  have "dropWhile ?P (label @ ws @ body) = dropWhile ?P (ws @ body)"
    by (simp add: dropWhile_all)
  also have "\<dots> = dropWhile ?P body"
    using assms(1) by (simp add: dropWhile_all subset_iff)
  also have "\<dots> = body"
    using assms(2,3) by (cases body) simp_all
  finally have front: "dropWhile ?P (label @ ws @ body) = body" .
  have "dropWhile ?P (rev body) = rev body"
    using assms(2,4) by (cases body rule: rev_cases) simp_all
  with front show ?thesis
    by (simp add: py_strip_chars_def)
qed

lemma labels_have_space:
  "(label, key, i) \<in> set sata_fields \<union> set disk_fields \<Longrightarrow> CHR '' '' \<in> set label"
  by (auto simp: sata_fields_def disk_fields_def)

section \<open>The value stored for a SATA or DISK attribute\<close>

lemma field_tokens_layout:
  assumes "(label, key, i) \<in> set sata_fields \<union> set disk_fields"
    and "columns_after label ws body"
  shows "field_tokens label (label @ ws @ body) = py_split (ws @ body)"
proof -
  from assms(2) have layout: "set ws \<subseteq> {CHR '' ''}" "body \<noteq> []"
    "hd body \<notin> set label" "last body \<notin> set label"
    by (simp_all add: columns_after_def)
  from layout(1) labels_have_space [OF assms(1)] have "set ws \<subseteq> set label"
    by auto
  with layout have "py_strip_chars label (label @ ws @ body) = body"
    by (simp add: py_strip_chars_layout)
  with layout(1) show ?thesis
    by (simp add: field_tokens_def py_split_spaces)
qed

text \<open>
  Claim C3, amended. On a SATA or DISK line made of a recognized label, blanks, and then
  columns whose first and last character do not occur in the label, a loop body that
  does not raise stores under the label's key the 4th token after the label (the 1st for
  \<^verbatim>\<open>Health Status\<close>). On any line that contains a recognized label, what is stored is
  that token of \<^verbatim>\<open>line.strip(label)\<close>, which does not remove the label as a substring:
  it strips, from both ends of the line, every character that occurs in the label.
\<close>

theorem smart_field_stored:
  "((label, key, i) \<in> set sata_fields \<and> columns_after label ws body
      \<and> sata_line smart (label @ ws @ body) = Inr smart'
    \<longrightarrow> i < length (py_split (ws @ body))
        \<and> smart' key = Some (VStr (py_split (ws @ body) ! i)))
   \<and> ((label, key, i) \<in> set disk_fields \<and> columns_after label ws body
      \<and> disk_line smart (label @ ws @ body) = Inr smart'
    \<longrightarrow> i < length (py_split (ws @ body))
        \<and> smart' key = Some (VStr (py_split (ws @ body) ! i)))
   \<and> ((label, key, i) \<in> set sata_fields \<and> py_in label line \<and> sata_line smart line = Inr smart'
    \<longrightarrow> i < length (field_tokens label line)
        \<and> smart' key = Some (VStr (field_tokens label line ! i)))
   \<and> ((label, key, i) \<in> set disk_fields \<and> py_in label line \<and> disk_line smart line = Inr smart'
    \<longrightarrow> i < length (field_tokens label line)
        \<and> smart' key = Some (VStr (field_tokens label line ! i)))"
proof (intro conjI impI)
  assume a: "(label, key, i) \<in> set sata_fields \<and> columns_after label ws body
      \<and> sata_line smart (label @ ws @ body) = Inr smart'"
  then have "field_tokens label (label @ ws @ body) = py_split (ws @ body)"
    using field_tokens_layout [of label key i ws body] by simp
  with a show "i < length (py_split (ws @ body))"
    and "smart' key = Some (VStr (py_split (ws @ body) ! i))"
    using run_fields_value [OF _ sata_fields_distinct, of smart "label @ ws @ body" smart'
        label key i] py_in_prefix [of label "ws @ body"]
    by (simp_all add: sata_line_fields)
next
  assume a: "(label, key, i) \<in> set disk_fields \<and> columns_after label ws body
      \<and> disk_line smart (label @ ws @ body) = Inr smart'"
  then have "field_tokens label (label @ ws @ body) = py_split (ws @ body)"
    using field_tokens_layout [of label key i ws body] by simp
  with a show "i < length (py_split (ws @ body))"
    and "smart' key = Some (VStr (py_split (ws @ body) ! i))"
    using run_fields_value [OF _ disk_fields_distinct, of smart "label @ ws @ body" smart'
        label key i] py_in_prefix [of label "ws @ body"]
    by (simp_all add: disk_line_fields)
next
  assume "(label, key, i) \<in> set sata_fields \<and> py_in label line \<and> sata_line smart line = Inr smart'"
  then show "i < length (field_tokens label line)"
    and "smart' key = Some (VStr (field_tokens label line ! i))"
    using run_fields_value [OF _ sata_fields_distinct, of smart line smart' label key i]
    by (simp_all add: sata_line_fields)
next
  assume "(label, key, i) \<in> set disk_fields \<and> py_in label line \<and> disk_line smart line = Inr smart'"
  then show "i < length (field_tokens label line)"
    and "smart' key = Some (VStr (field_tokens label line ! i))"
    using run_fields_value [OF _ disk_fields_distinct, of smart line smart' label key i]
    by (simp_all add: disk_line_fields)
qed

lemmas smart_eval =
  sata_line_def disk_line_def smart_field_def py_strip_chars_def py_split_def is_space_def
  py_index_def base_smart_data_def field_tokens_def

text \<open>
  Claim C3 as stated fails. The line \<^verbatim>\<open>Health Status: OK ...\<close> stores a colon, not
  \<^verbatim>\<open>OK\<close>, under \<^verbatim>\<open>Health Status\<close>. On the line \<^verbatim>\<open>X Drive Temperature a b c d\<close>
  nothing is stripped, the code stores \<^verbatim>\<open>a\<close>, and the 4th token after removing the label
  substring is \<^verbatim>\<open>c\<close>.
\<close>

theorem smart_field_counterexample:
  "sata_line (base_smart_data [''esx1'', ''10.0.0.1'', ''SATA'', ''sda''])
       ''Health Status: OK ...''
     = Inr ((base_smart_data [''esx1'', ''10.0.0.1'', ''SATA'', ''sda''])
              (''Health Status'' \<mapsto> VStr '':''))
   \<and> disk_line (base_smart_data [''esx1'', ''10.0.0.1'', ''DISK'', ''sdb''])
       ''Health Status: OK ...''
     = Inr ((base_smart_data [''esx1'', ''10.0.0.1'', ''DISK'', ''sdb''])
              (''Health Status'' \<mapsto> VStr '':''))
   \<and> disk_line (base_smart_data [''esx1'', ''10.0.0.1'', ''DISK'', ''sdb''])
       ''X Drive Temperature a b c d''
     = Inr ((base_smart_data [''esx1'', ''10.0.0.1'', ''DISK'', ''sdb''])
              (''Drive Temperature (Celcius)'' \<mapsto> VStr ''a''))
   \<and> spec_field_value ''Drive Temperature'' 3 ''X Drive Temperature a b c d'' = Inr ''c''"
  by (simp add: smart_eval spec_field_value_def)

text \<open>
  Lines in the layout of the diagnostic tool, as \<^verbatim>\<open>readlines\<close> returns them: the label,
  four columns, and the end of the line.
\<close>

theorem smart_field_stored_witness:
  "(\<exists>smart'. sata_line (base_smart_data [''esx1'', ''10.0.0.1'', ''SATA'', ''sda''])
                ''Health Status   OK  N/A  N/A  N/A\<newline>'' = Inr smart'
             \<and> smart' ''Health Status'' = Some (VStr ''OK''))
   \<and> (\<exists>smart'. disk_line (base_smart_data [''esx1'', ''10.0.0.1'', ''DISK'', ''sdb''])
                ''Drive Temperature  26  0  48  N/A\<newline>'' = Inr smart'
             \<and> smart' ''Drive Temperature (Celcius)'' = Some (VStr ''N/A''))
   \<and> (\<exists>smart'. sata_line (base_smart_data [''esx1'', ''10.0.0.1'', ''SATA'', ''sda''])
                ''  Media Wearout Indicator: 1 2 3 4'' = Inr smart'
             \<and> smart' ''Media Wearout Indicator'' = Some (VStr ''3''))
   \<and> (\<exists>smart'. disk_line (base_smart_data [''esx1'', ''10.0.0.1'', ''DISK'', ''sdb''])
                ''Health Status: OK ...'' = Inr smart'
             \<and> smart' ''Health Status'' = Some (VStr '':''))"
proof -
  let ?sata = "base_smart_data [''esx1'', ''10.0.0.1'', ''SATA'', ''sda'']"
  let ?disk = "base_smart_data [''esx1'', ''10.0.0.1'', ''DISK'', ''sdb'']"
  have s: "sata_line ?sata (''Health Status'' @ ''   '' @ ''OK  N/A  N/A  N/A\<newline>'')
             = Inr (?sata(''Health Status'' \<mapsto> VStr ''OK''))"
    by (simp add: smart_eval)
  have d: "disk_line ?disk (''Drive Temperature'' @ ''  '' @ ''26  0  48  N/A\<newline>'')
             = Inr (?disk(''Drive Temperature (Celcius)'' \<mapsto> VStr ''N/A''))"
    by (simp add: smart_eval)
  have s': "sata_line ?sata ''  Media Wearout Indicator: 1 2 3 4''
             = Inr (?sata(''Media Wearout Indicator'' \<mapsto> VStr ''3''))"
    by (simp add: smart_eval)
  have d': "disk_line ?disk ''Health Status: OK ...''
             = Inr (?disk(''Health Status'' \<mapsto> VStr '':''))"
    by (simp add: smart_eval)
  have "(?sata(''Health Status'' \<mapsto> VStr ''OK'')) ''Health Status'' = Some (VStr ''OK'')"
    using s smart_field_stored [of "''Health Status''" "''Health Status''" 0 "''   ''"
        "''OK  N/A  N/A  N/A\<newline>''" ?sata "?sata(''Health Status'' \<mapsto> VStr ''OK'')"]
    by (simp add: sata_fields_def columns_after_def py_split_def is_space_def)
  moreover have "(?disk(''Drive Temperature (Celcius)'' \<mapsto> VStr ''N/A''))
                   ''Drive Temperature (Celcius)'' = Some (VStr ''N/A'')"
    using d smart_field_stored [of "''Drive Temperature''" "''Drive Temperature (Celcius)''" 3
        "''  ''" "''26  0  48  N/A\<newline>''" ?disk
        "?disk(''Drive Temperature (Celcius)'' \<mapsto> VStr ''N/A'')"]
    by (simp add: disk_fields_def columns_after_def py_split_def is_space_def)
  moreover have "(?sata(''Media Wearout Indicator'' \<mapsto> VStr ''3'')) ''Media Wearout Indicator''
                   = Some (VStr ''3'')"
    using s' smart_field_stored [of "''Media Wearout Indicator''" "''Media Wearout Indicator''" 3
        _ _ ?sata "?sata(''Media Wearout Indicator'' \<mapsto> VStr ''3'')"
        "''  Media Wearout Indicator: 1 2 3 4''"]
    by (simp add: sata_fields_def smart_eval)
  moreover have "(?disk(''Health Status'' \<mapsto> VStr '':'')) ''Health Status'' = Some (VStr '':'')"
    using d' smart_field_stored [of "''Health Status''" "''Health Status''" 0
        _ _ ?disk "?disk(''Health Status'' \<mapsto> VStr '':'')" "''Health Status: OK ...''"]
    by (simp add: disk_fields_def smart_eval)
  ultimately show ?thesis
    using s d s' d' by simp
qed

section \<open>Lines that match no pattern, and lines that match\<close>

lemma nvme_line_skip:
  assumes "nvme_key raw \<notin> set nvme_keys"
  shows "nvme_line maxd smart raw = Inr smart"
proof -
  from assms have
    "hd (py_split_on CHR '':'' (py_strip raw)) \<noteq> ''NVM Subsystem Reliability Degradation''"
    "hd (py_split_on CHR '':'' (py_strip raw)) \<noteq> ''Volatile Memory Backup Device Failure''"
    "hd (py_split_on CHR '':'' (py_strip raw)) \<noteq> ''Composite Temperature''"
    "hd (py_split_on CHR '':'' (py_strip raw)) \<noteq> ''Available Spare''"
    "hd (py_split_on CHR '':'' (py_strip raw)) \<noteq> ''Available Spare Threshold''"
    "hd (py_split_on CHR '':'' (py_strip raw)) \<noteq> ''Percentage Used''"
    "hd (py_split_on CHR '':'' (py_strip raw)) \<noteq> ''Unsafe Shutdowns''"
    "hd (py_split_on CHR '':'' (py_strip raw)) \<noteq> ''Media Errors''"
    "hd (py_split_on CHR '':'' (py_strip raw)) \<noteq> ''Number of Error Info Log Entries''"
    by (auto simp: nvme_keys_def nvme_key_def)
  then show ?thesis
    by (simp add: nvme_line_def Let_def nvme_skip)
qed

lemma nvme_lines_skip:
  "\<forall>raw\<in>set lines. nvme_key raw \<notin> set nvme_keys \<Longrightarrow> nvme_lines maxd smart lines = Inr smart"
  by (induction lines) (simp_all add: nvme_line_skip)

lemma smart_field_ok:
  "(\<exists>s'. smart_field label key i line s = Inr s')
     \<longleftrightarrow> (if py_in label line then i < length (field_tokens label line) else True)"
  by (simp add: smart_field_def field_tokens_def py_index_def)

lemma run_fields_ok: "(\<exists>s'. run_fields fs s line = Inr s') \<longleftrightarrow> fields_ok fs line"
proof (induction fs arbitrary: s)
  case Nil
  then show ?case by (simp add: fields_ok_def)
next
  case (Cons f fs)
  obtain label key i where f: "f = (label, key, i)"
    by (cases f)
  have "(\<exists>s'. run_fields (f # fs) s line = Inr s')
          \<longleftrightarrow> (\<exists>s1. smart_field label key i line s = Inr s1 \<and> (\<exists>s'. run_fields fs s1 line = Inr s'))"
    by (auto simp: f and_then_eq_Inr)
  also have "\<dots> \<longleftrightarrow> (\<exists>s1. smart_field label key i line s = Inr s1) \<and> fields_ok fs line"
    using Cons.IH by auto
  also have "\<dots> \<longleftrightarrow> fields_ok (f # fs) line"
    by (simp add: smart_field_ok f fields_ok_def)
  finally show ?case .
qed

lemma parse_sata_ok:
  "(\<exists>smart'. parse_sata smart lines = Inr smart') \<longleftrightarrow> (\<forall>line\<in>set lines. fields_ok sata_fields line)"
proof (induction lines arbitrary: smart)
  case Nil
  then show ?case by simp
next
  case (Cons line lines)
  have "(\<exists>smart'. parse_sata smart (line # lines) = Inr smart')
          \<longleftrightarrow> (\<exists>s1. sata_line smart line = Inr s1 \<and> (\<exists>smart'. parse_sata s1 lines = Inr smart'))"
    by (auto simp: and_then_eq_Inr)
  also have "\<dots> \<longleftrightarrow> (\<exists>s1. sata_line smart line = Inr s1)
                       \<and> (\<forall>line\<in>set lines. fields_ok sata_fields line)"
    using Cons.IH by auto
  also have "\<dots> \<longleftrightarrow> (\<forall>l\<in>set (line # lines). fields_ok sata_fields l)"
    by (simp add: sata_line_fields run_fields_ok)
  finally show ?case .
qed

lemma parse_disk_ok:
  "(\<exists>smart'. parse_disk smart lines = Inr smart') \<longleftrightarrow> (\<forall>line\<in>set lines. fields_ok disk_fields line)"
proof (induction lines arbitrary: smart)
  case Nil
  then show ?case by simp
next
  case (Cons line lines)
  have "(\<exists>smart'. parse_disk smart (line # lines) = Inr smart')
          \<longleftrightarrow> (\<exists>s1. disk_line smart line = Inr s1 \<and> (\<exists>smart'. parse_disk s1 lines = Inr smart'))"
    by (auto simp: and_then_eq_Inr)
  also have "\<dots> \<longleftrightarrow> (\<exists>s1. disk_line smart line = Inr s1)
                       \<and> (\<forall>line\<in>set lines. fields_ok disk_fields line)"
    using Cons.IH by auto
  also have "\<dots> \<longleftrightarrow> (\<forall>l\<in>set (line # lines). fields_ok disk_fields l)"
    by (simp add: disk_line_fields run_fields_ok)
  finally show ?case .
qed

lemma run_fields_skip: "no_label fs line \<Longrightarrow> run_fields fs s line = Inr s"
  by (induction fs) (auto simp: no_label_def smart_field_def)

lemma parse_sata_skip:
  "\<forall>line\<in>set lines. no_label sata_fields line \<Longrightarrow> parse_sata smart lines = Inr smart"
  by (induction lines) (simp_all add: sata_line_fields run_fields_skip)

lemma parse_disk_skip:
  "\<forall>line\<in>set lines. no_label disk_fields line \<Longrightarrow> parse_disk smart lines = Inr smart"
  by (induction lines) (simp_all add: disk_line_fields run_fields_skip)

lemma nvme_verdict_ok:
  assumes "smart ''Available Spare (%)'' = Some (VInt spare)"
    and "smart ''Available Spare Threshold (%)'' = Some (VInt threshold)"
  shows "\<exists>smart'. nvme_verdict smart = Inr smart'"
  by (simp add: nvme_verdict_def py_getitem_def assms)

section \<open>When the parsers raise\<close>

text \<open>
  Claim C2, amended. A line that matches no expected pattern is skipped without a trace:
  the NVME line loop leaves the record as it is on lines whose key is none of the nine
  keys, and the SATA and DISK parsers return the record unchanged on lines that contain
  none of their labels, so a field that is missing from the output never makes them raise.
  On lines that do match, the SATA and DISK parsers return a record exactly when every
  line has, for each label it contains, a token at the index that is read; and the NVME
  parser returns a record when its line loop does and both spare percentages were stored.
\<close>

theorem parsers_permissive:
  "((\<forall>raw\<in>set lines. nvme_key raw \<notin> set nvme_keys) \<longrightarrow> nvme_lines maxd smart lines = Inr smart)
   \<and> ((\<forall>line\<in>set lines. no_label sata_fields line) \<longrightarrow> parse_sata smart lines = Inr smart)
   \<and> ((\<forall>line\<in>set lines. no_label disk_fields line) \<longrightarrow> parse_disk smart lines = Inr smart)
   \<and> ((\<exists>smart'. parse_sata smart lines = Inr smart')
        \<longleftrightarrow> (\<forall>line\<in>set lines. fields_ok sata_fields line))
   \<and> ((\<exists>smart'. parse_disk smart lines = Inr smart')
        \<longleftrightarrow> (\<forall>line\<in>set lines. fields_ok disk_fields line))
   \<and> (nvme_lines maxd smart lines = Inr s1
        \<and> s1 ''Available Spare (%)'' = Some (VInt spare)
        \<and> s1 ''Available Spare Threshold (%)'' = Some (VInt threshold)
      \<longrightarrow> (\<exists>smart'. parse_nvme maxd smart lines = Inr smart'))"
proof (intro conjI impI)
  assume "\<forall>raw\<in>set lines. nvme_key raw \<notin> set nvme_keys"
  then show "nvme_lines maxd smart lines = Inr smart"
    by (rule nvme_lines_skip)
next
  assume "\<forall>line\<in>set lines. no_label sata_fields line"
  then show "parse_sata smart lines = Inr smart"
    by (rule parse_sata_skip)
next
  assume "\<forall>line\<in>set lines. no_label disk_fields line"
  then show "parse_disk smart lines = Inr smart"
    by (rule parse_disk_skip)
next
  show "(\<exists>smart'. parse_sata smart lines = Inr smart')
          \<longleftrightarrow> (\<forall>line\<in>set lines. fields_ok sata_fields line)"
    by (rule parse_sata_ok)
next
  show "(\<exists>smart'. parse_disk smart lines = Inr smart')
          \<longleftrightarrow> (\<forall>line\<in>set lines. fields_ok disk_fields line)"
    by (rule parse_disk_ok)
next
  assume a: "nvme_lines maxd smart lines = Inr s1
        \<and> s1 ''Available Spare (%)'' = Some (VInt spare)
        \<and> s1 ''Available Spare Threshold (%)'' = Some (VInt threshold)"
  then obtain smart' where "nvme_verdict s1 = Inr smart'"
    using nvme_verdict_ok by blast
  with a show "\<exists>smart'. parse_nvme maxd smart lines = Inr smart'"
    by (simp add: parse_nvme_def)
qed

text \<open>
  Claim C2 as stated fails: the NVME parser raises \<^verbatim>\<open>KeyError\<close> when a spare
  percentage is missing from the output, and every parser raises on a line that matches a
  pattern without the layout that the pattern expects.
\<close>

theorem parsers_raise_counterexample:
  "parse_nvme 4300 (base_smart_data [''esx1'', ''10.0.0.1'', ''NVME'', ''nvme0'']) []
     = Inl KeyError
   \<and> parse_nvme 4300 (base_smart_data [''esx1'', ''10.0.0.1'', ''NVME'', ''nvme0''])
       [''Available Spare Threshold: 10%''] = Inl KeyError
   \<and> parse_nvme 4300 (base_smart_data [''esx1'', ''10.0.0.1'', ''NVME'', ''nvme0''])
       [''Composite Temperature''] = Inl IndexError
   \<and> parse_nvme 4300 (base_smart_data [''esx1'', ''10.0.0.1'', ''NVME'', ''nvme0''])
       [''Available Spare: unknown''] = Inl ValueError
   \<and> parse_sata (base_smart_data [''esx1'', ''10.0.0.1'', ''SATA'', ''sda''])
       [''Drive Temperature 30''] = Inl IndexError
   \<and> parse_disk (base_smart_data [''esx1'', ''10.0.0.1'', ''DISK'', ''sdb''])
       [''Health Status''] = Inl IndexError"
  by (simp add: nvme_eval smart_eval)

text \<open>Outputs on which the parsers return a record.\<close>

theorem parsers_permissive_witness:
  "nvme_lines 4300 (base_smart_data [''esx1'', ''10.0.0.1'', ''NVME'', ''nvme0''])
       [''Critical Warning: 0x0'', ''no colon here'', []]
     = Inr (base_smart_data [''esx1'', ''10.0.0.1'', ''NVME'', ''nvme0''])
   \<and> parse_sata (base_smart_data [''esx1'', ''10.0.0.1'', ''SATA'', ''sda''])
       [''Parameter  Value  Threshold  Worst  Raw'', ''Power-on Hours  85  0  85  N/A'']
     = Inr (base_smart_data [''esx1'', ''10.0.0.1'', ''SATA'', ''sda''])
   \<and> parse_disk (base_smart_data [''esx1'', ''10.0.0.1'', ''DISK'', ''sdb'']) []
     = Inr (base_smart_data [''esx1'', ''10.0.0.1'', ''DISK'', ''sdb''])
   \<and> (\<exists>smart'. parse_sata (base_smart_data [''esx1'', ''10.0.0.1'', ''SATA'', ''sda''])
                  [''Health Status  OK  N/A  N/A  N/A'', ''Power-on Hours  85  0  85  N/A'']
                = Inr smart')
   \<and> (\<exists>smart'. parse_disk (base_smart_data [''esx1'', ''10.0.0.1'', ''DISK'', ''sdb''])
                  [''Drive Temperature  26  0  48  N/A''] = Inr smart')
   \<and> (\<exists>smart'. parse_nvme 4300 (base_smart_data [''esx1'', ''10.0.0.1'', ''NVME'', ''nvme0''])
                  [''Available Spare: 50%'', ''Available Spare Threshold: 10%'']
                = Inr smart')"
proof -
  let ?nvme = "base_smart_data [''esx1'', ''10.0.0.1'', ''NVME'', ''nvme0'']"
  let ?sata = "base_smart_data [''esx1'', ''10.0.0.1'', ''SATA'', ''sda'']"
  let ?disk = "base_smart_data [''esx1'', ''10.0.0.1'', ''DISK'', ''sdb'']"
  have skip_nvme: "\<forall>raw\<in>set [''Critical Warning: 0x0'', ''no colon here'', []].
                     nvme_key raw \<notin> set nvme_keys"
    by (simp add: nvme_key_def nvme_keys_def py_split_on_def py_strip_def is_space_def)
  have skip_sata: "\<forall>line\<in>set [''Parameter  Value  Threshold  Worst  Raw'',
                                ''Power-on Hours  85  0  85  N/A'']. no_label sata_fields line"
    by (simp add: no_label_def sata_fields_def)
  have skip_disk: "\<forall>line\<in>set []. no_label disk_fields line"
    by simp
  have ok_sata: "\<forall>line\<in>set [''Health Status  OK  N/A  N/A  N/A'',
                              ''Power-on Hours  85  0  85  N/A'']. fields_ok sata_fields line"
    by (simp add: fields_ok_def sata_fields_def smart_eval)
  have ok_disk: "\<forall>line\<in>set [''Drive Temperature  26  0  48  N/A'']. fields_ok disk_fields line"
    by (simp add: fields_ok_def disk_fields_def smart_eval)
  have lines: "nvme_lines 4300 ?nvme [''Available Spare: 50%'', ''Available Spare Threshold: 10%'']
         = Inr (?nvme(''Available Spare (%)'' \<mapsto> VInt 50,
                      ''Available Spare Threshold (%)'' \<mapsto> VInt 10))"
    by (simp add: nvme_eval)
  note perm = parsers_permissive [where maxd = 4300]
  have "nvme_lines 4300 ?nvme [''Critical Warning: 0x0'', ''no colon here'', []] = Inr ?nvme"
    using perm [of "[''Critical Warning: 0x0'', ''no colon here'', []]" ?nvme] skip_nvme
    by blast
  moreover have "parse_sata ?sata [''Parameter  Value  Threshold  Worst  Raw'',
                                   ''Power-on Hours  85  0  85  N/A''] = Inr ?sata"
    using perm [of "[''Parameter  Value  Threshold  Worst  Raw'',
                    ''Power-on Hours  85  0  85  N/A'']" ?sata] skip_sata
    by blast
  moreover have "parse_disk ?disk [] = Inr ?disk"
    using perm [of "[]" ?disk] skip_disk
    by blast
  moreover have "\<exists>smart'. parse_sata ?sata [''Health Status  OK  N/A  N/A  N/A'',
                                             ''Power-on Hours  85  0  85  N/A''] = Inr smart'"
    using perm [of "[''Health Status  OK  N/A  N/A  N/A'',
                    ''Power-on Hours  85  0  85  N/A'']" ?sata] ok_sata
    by blast
  moreover have "\<exists>smart'. parse_disk ?disk [''Drive Temperature  26  0  48  N/A''] = Inr smart'"
    using perm [of "[''Drive Temperature  26  0  48  N/A'']" ?disk] ok_disk
    by blast
  moreover have "\<exists>smart'. parse_nvme 4300 ?nvme
                   [''Available Spare: 50%'', ''Available Spare Threshold: 10%''] = Inr smart'"
    using perm [of "[''Available Spare: 50%'', ''Available Spare Threshold: 10%'']" ?nvme
                  "?nvme(''Available Spare (%)'' \<mapsto> VInt 50,
                         ''Available Spare Threshold (%)'' \<mapsto> VInt 10)" 50 10] lines
    by simp
  ultimately show ?thesis
    by blast
qed

section \<open>The result of the remote command\<close>

lemma copy_lines: "foldl (\<lambda>output line. output @ [line]) acc lines = acc @ lines"
  by (induction lines arbitrary: acc) simp_all

lemma esxi_command_try_ok:
  "esxi_command_try client = Inr r \<longleftrightarrow>
     connect client = Inr () \<and> exec_command client = Inr ()
       \<and> (\<exists>lines. readlines client = Inr lines \<and> r = (lines, ''OK''))"
  by (auto simp: esxi_command_try_def and_then_eq_Inr copy_lines)

lemma esxi_command_try_raises:
  "esxi_command_try client = Inl e \<longleftrightarrow>
     connect client = Inl e
     \<or> (connect client = Inr () \<and> exec_command client = Inl e)
     \<or> (connect client = Inr () \<and> exec_command client = Inr () \<and> readlines client = Inl e)"
  by (cases "connect client"; cases "exec_command client"; cases "readlines client")
     (auto simp: esxi_command_try_def)

text \<open>
  Claim C9. When the connection (which includes the authentication), the start of the
  command and the reading of its output all return, \<^verbatim>\<open>esxi_command\<close> returns the output
  lines paired with \<^verbatim>\<open>'OK'\<close> and logs nothing. When one of the three raises an
  exception, \<^verbatim>\<open>esxi_command\<close> logs it as an error and returns \<^verbatim>\<open>None\<close>.
\<close>

theorem esxi_command_result:
  "(connect (ssh host user password command) = Inr ()
      \<and> exec_command (ssh host user password command) = Inr ()
      \<and> readlines (ssh host user password command) = Inr lines
    \<longrightarrow> esxi_command ssh host user password command lg = (Some (lines, ''OK''), lg))
   \<and> (connect (ssh host user password command) = Inl e
        \<or> (connect (ssh host user password command) = Inr ()
             \<and> exec_command (ssh host user password command) = Inl e)
        \<or> (connect (ssh host user password command) = Inr ()
             \<and> exec_command (ssh host user password command) = Inr ()
             \<and> readlines (ssh host user password command) = Inl e)
    \<longrightarrow> esxi_command ssh host user password command lg = (None, lg @ [(ERROR, e)]))"
proof (intro conjI impI)
  assume "connect (ssh host user password command) = Inr ()
      \<and> exec_command (ssh host user password command) = Inr ()
      \<and> readlines (ssh host user password command) = Inr lines"
  then have "esxi_command_try (ssh host user password command) = Inr (lines, ''OK'')"
    by (simp add: esxi_command_try_ok)
  then show "esxi_command ssh host user password command lg = (Some (lines, ''OK''), lg)"
    by (simp add: esxi_command_def)
next
  assume "connect (ssh host user password command) = Inl e
        \<or> (connect (ssh host user password command) = Inr ()
             \<and> exec_command (ssh host user password command) = Inl e)
        \<or> (connect (ssh host user password command) = Inr ()
             \<and> exec_command (ssh host user password command) = Inr ()
             \<and> readlines (ssh host user password command) = Inl e)"
  then have "esxi_command_try (ssh host user password command) = Inl e"
    by (simp add: esxi_command_try_raises)
  then show "esxi_command ssh host user password command lg = (None, lg @ [(ERROR, e)])"
    by (simp add: esxi_command_def)
qed

text \<open>A host that answers, and a host that refuses the password.\<close>

theorem esxi_command_result_witness:
  "esxi_command
       (\<lambda>host user password command.
          \<lparr>connect = Inr (), exec_command = Inr (),
           readlines = Inr [''Available Spare: 50%'', ''Available Spare Threshold: 10%'']\<rparr>)
       ''10.0.0.1'' (Some ''root'') (Some ''secret'') ''esxcli nvme device log smart get -A nvme0''
       [(INFO, ''started'')]
     = (Some ([''Available Spare: 50%'', ''Available Spare Threshold: 10%''], ''OK''),
        [(INFO, ''started'')])
   \<and> esxi_command
       (\<lambda>host user password command.
          \<lparr>connect = Inl ''Authentication failed.'', exec_command = Inr (), readlines = Inr []\<rparr>)
       ''10.0.0.1'' (Some ''root'') (Some ''wrong'') ''esxcli nvme device log smart get -A nvme0''
       [(INFO, ''started'')]
     = (None, [(INFO, ''started''), (ERROR, ''Authentication failed.'')])"
proof -
  let ?good = "\<lambda>host user password command.
          \<lparr>connect = Inr (), exec_command = Inr (),
           readlines = Inr [''Available Spare: 50%'', ''Available Spare Threshold: 10%'']\<rparr>"
  let ?bad = "\<lambda>host user password command.
          \<lparr>connect = Inl ''Authentication failed.'', exec_command = Inr (), readlines = Inr []\<rparr>"
  show ?thesis
    using esxi_command_result [of ?good "''10.0.0.1''" "Some ''root''" "Some ''secret''"
            "''esxcli nvme device log smart get -A nvme0''"
            "[''Available Spare: 50%'', ''Available Spare Threshold: 10%'']" "[(INFO, ''started'')]"]
          esxi_command_result [of ?bad "''10.0.0.1''" "Some ''root''" "Some ''wrong''"
            "''esxcli nvme device log smart get -A nvme0''" _ "[(INFO, ''started'')]"
            "''Authentication failed.''"]
    by simp
qed

section \<open>The user name\<close>

text \<open>
  Claim C8 does not hold of the code. The test \<^verbatim>\<open>os.getenv('ESXI_USER') is not esxi_user\<close>
  is true when the variable is not set, since \<^verbatim>\<open>None\<close> is not the default string, so the
  default is overwritten with \<^verbatim>\<open>None\<close>: without \<^verbatim>\<open>ESXI_USER\<close> the user name handed to
  \<^verbatim>\<open>esxi_command\<close> is \<^verbatim>\<open>None\<close>, not \<^verbatim>\<open>root\<close>. With \<^verbatim>\<open>ESXI_USER\<close> set, it is
  the value of the variable.
\<close>

theorem esxi_user_from_env:
  "esxi_user (w\<lparr>env := (env w)(''ESXI_USER'' := None)\<rparr>) = None
   \<and> esxi_user (w\<lparr>env := (env w)(''ESXI_USER'' \<mapsto> u)\<rparr>) = Some u"
  by (simp add: esxi_user_def py_is_not_def default_esxi_user_def)

section \<open>A drive type that is not supported\<close>

lemma read_drive_unsupported:
  assumes "4 \<le> length row" and "row ! 2 \<notin> set drive_types"
  shows "read_drive w st row
           = (Inr (''Not OK'', base_smart_data row),
              st\<lparr>logged := logged st @
                   [start_entry row, (INFO, ''########## Unsupported drive type ##########'')]\<rparr>)"
  using assms by (simp add: read_drive_def drive_types_def start_entry_def)

lemma base_smart_data_dom:
  "dom (base_smart_data row) = {''Drive Type'', ''Drive Name'', ''Health Status''}"
  by (auto simp: base_smart_data_def)

text \<open>
  Claim C7. For an inventory row (four fields or more) whose drive type is none of
  \<^verbatim>\<open>NVME\<close>, \<^verbatim>\<open>SATA\<close> and \<^verbatim>\<open>DISK\<close>, the loop body raises nothing, logs the message
  \<^verbatim>\<open>Unsupported drive type\<close> (with \<^verbatim>\<open>logging.info\<close>), runs no command, and the record it
  has built holds the three base attributes and no other, \<^verbatim>\<open>Health Status\<close> being
  \<^verbatim>\<open>OK\<close>. The status stays \<^verbatim>\<open>'Not OK'\<close>, so the loop then ends with \<^verbatim>\<open>break\<close>.
\<close>

theorem unsupported_drive_type:
  assumes "4 \<le> length row" and "row ! 2 \<notin> set drive_types"
  shows "read_drive w st row
           = (Inr (''Not OK'', base_smart_data row),
              st\<lparr>logged := logged st @
                   [start_entry row, (INFO, ''########## Unsupported drive type ##########'')]\<rparr>)
         \<and> fst (process_row w st row) = Break
         \<and> dom (base_smart_data row) = {''Drive Type'', ''Drive Name'', ''Health Status''}
         \<and> base_smart_data row ''Drive Type'' = Some (VStr (row ! 2))
         \<and> base_smart_data row ''Drive Name'' = Some (VStr (row ! 3))
         \<and> base_smart_data row ''Health Status'' = Some (VStr ''OK'')"
proof -
  note rd = read_drive_unsupported [OF assms, of w st]
  have "fst (process_row w st row) = Break"
    by (simp add: process_row_def rd Let_def)
  moreover have "base_smart_data row ''Drive Type'' = Some (VStr (row ! 2))"
    "base_smart_data row ''Drive Name'' = Some (VStr (row ! 3))"
    "base_smart_data row ''Health Status'' = Some (VStr ''OK'')"
    by (simp_all add: base_smart_data_def)
  ultimately show ?thesis
    using rd base_smart_data_dom by simp
qed

text \<open>A row of type \<^verbatim>\<open>USB\<close>.\<close>

theorem unsupported_drive_type_witness:
  "read_drive
       \<lparr>env = Map.empty,
        ssh_hosts = (\<lambda>host user password command.
                       \<lparr>connect = Inr (), exec_command = Inr (), readlines = Inr []\<rparr>),
        same_object = False, max_str_digits = 4300\<rparr>
       \<lparr>servers = Map.empty, logged = []\<rparr>
       [''esx1'', ''10.0.0.1'', ''USB'', ''sdc'']
     = (Inr (''Not OK'', base_smart_data [''esx1'', ''10.0.0.1'', ''USB'', ''sdc'']),
        \<lparr>servers = Map.empty,
         logged = [(INFO, ''########## Starting CSV iteration for esx1 drive sdc ##########''),
                   (INFO, ''########## Unsupported drive type ##########'')]\<rparr>)
   \<and> fst (process_row
            \<lparr>env = Map.empty,
             ssh_hosts = (\<lambda>host user password command.
                            \<lparr>connect = Inr (), exec_command = Inr (), readlines = Inr []\<rparr>),
             same_object = False, max_str_digits = 4300\<rparr>
            \<lparr>servers = Map.empty, logged = []\<rparr>
            [''esx1'', ''10.0.0.1'', ''USB'', ''sdc'']) = Break
   \<and> dom (base_smart_data [''esx1'', ''10.0.0.1'', ''USB'', ''sdc''])
       = {''Drive Type'', ''Drive Name'', ''Health Status''}
   \<and> base_smart_data [''esx1'', ''10.0.0.1'', ''USB'', ''sdc''] ''Health Status''
       = Some (VStr ''OK'')"
proof -
  have "4 \<le> length [''esx1'', ''10.0.0.1'', ''USB'', ''sdc'']"
    and "[''esx1'', ''10.0.0.1'', ''USB'', ''sdc''] ! 2 \<notin> set drive_types"
    by (simp_all add: drive_types_def)
  from unsupported_drive_type [OF this] show ?thesis
    by (simp add: start_entry_def)
qed

section \<open>One pass through the loop body\<close>

lemma esxi_command_fst:
  "fst (esxi_command ssh host user password command lg)
     = fst (esxi_command ssh host user password command [])"
  by (simp add: esxi_command_def split: sum.splits)

lemma parse_nvme_drive_name:
  assumes "parse_nvme maxd s lines = Inr s'"
  shows "s' ''Drive Name'' = s ''Drive Name''"
proof -
  from assms obtain s1 where
    lines: "nvme_lines maxd s lines = Inr s1" and verdict: "nvme_verdict s1 = Inr s'"
    by (auto simp: parse_nvme_def and_then_eq_Inr)
  have "''Drive Name'' \<notin> set nvme_targets"
    by (simp add: nvme_targets_def)
  with lines have "s1 ''Drive Name'' = s ''Drive Name''"
    by (rule nvme_lines_frame)
  moreover from verdict have "s' ''Drive Name'' = s1 ''Drive Name''"
    by (auto simp: nvme_verdict_def and_then_eq_Inr split: if_splits)
  ultimately show ?thesis by simp
qed

lemma parse_sata_drive_name:
  "parse_sata s lines = Inr s' \<Longrightarrow> s' ''Drive Name'' = s ''Drive Name''"
proof (induction lines arbitrary: s)
  case Nil
  then show ?case by simp
next
  case (Cons line lines)
  then obtain s1 where
    first: "run_fields sata_fields s line = Inr s1" and rest: "parse_sata s1 lines = Inr s'"
    by (auto simp: and_then_eq_Inr sata_line_fields)
  have "''Drive Name'' \<notin> set (map (\<lambda>(label, key, i). key) sata_fields)"
    by (simp add: sata_fields_def)
  with first have "s1 ''Drive Name'' = s ''Drive Name''"
    by (rule run_fields_frame)
  with Cons.IH [OF rest] show ?case by simp
qed

lemma parse_disk_drive_name:
  "parse_disk s lines = Inr s' \<Longrightarrow> s' ''Drive Name'' = s ''Drive Name''"
proof (induction lines arbitrary: s)
  case Nil
  then show ?case by simp
next
  case (Cons line lines)
  then obtain s1 where
    first: "run_fields disk_fields s line = Inr s1" and rest: "parse_disk s1 lines = Inr s'"
    by (auto simp: and_then_eq_Inr disk_line_fields)
  have "''Drive Name'' \<notin> set (map (\<lambda>(label, key, i). key) disk_fields)"
    by (simp add: disk_fields_def)
  with first have "s1 ''Drive Name'' = s ''Drive Name''"
    by (rule run_fields_frame)
  with Cons.IH [OF rest] show ?case by simp
qed

lemma query_drive_servers:
  "query_drive w st row command parse smart = (r, st') \<Longrightarrow> servers st' = servers st"
  by (auto simp: query_drive_def split: prod.splits)

lemma query_drive_fails:
  assumes "esxi_command_try (ssh_hosts w (row ! 1) (esxi_user w) (env w ''ESXI_PASS'') command)
             = Inl e"
  shows "query_drive w st row command parse smart
           = (Inl TypeError, st\<lparr>logged := logged st @ [(ERROR, e)]\<rparr>)"
  using assms by (simp add: query_drive_def esxi_command_def subscript_output_def)

lemma query_drive_ok:
  assumes "query_drive w st row command parse smart = (Inr (status, sd), st')"
  shows "\<exists>lines. fst (esxi_command (ssh_hosts w) (row ! 1) (esxi_user w) (env w ''ESXI_PASS'')
                        command []) = Some (lines, status)
                 \<and> parse smart lines = Inr sd"
proof -
  obtain outp lg where
    out: "esxi_command (ssh_hosts w) (row ! 1) (esxi_user w) (env w ''ESXI_PASS'') command
            (logged st) = (outp, lg)"
    by (cases "esxi_command (ssh_hosts w) (row ! 1) (esxi_user w) (env w ''ESXI_PASS'') command
            (logged st)")
  with assms obtain lines where
    "subscript_output outp = Inr (lines, status)" and "parse smart lines = Inr sd"
    by (auto simp: query_drive_def and_then_eq_Inr)
  moreover from this(1) have "outp = Some (lines, status)"
    by (simp add: subscript_output_def split: option.splits)
  moreover from out have
    "fst (esxi_command (ssh_hosts w) (row ! 1) (esxi_user w) (env w ''ESXI_PASS'') command [])
       = outp"
    using esxi_command_fst [of "ssh_hosts w" "row ! 1" "esxi_user w" "env w ''ESXI_PASS''"
        command "logged st"]
    by simp
  ultimately show ?thesis by simp
qed

lemma read_drive_servers:
  "read_drive w st row = (r, st') \<Longrightarrow> servers st' = servers st"
  by (auto simp: read_drive_def Let_def dest!: query_drive_servers split: if_splits)

lemma read_drive_fails:
  assumes "4 \<le> length row" and "row ! 2 \<in> set drive_types"
    and "esxi_command_try (row_client w row) = Inl e"
  shows "read_drive w st row
           = (Inl TypeError, st\<lparr>logged := logged st @ [start_entry row, (ERROR, e)]\<rparr>)"
proof -
  let ?st = "st\<lparr>logged := logged st @ [start_entry row]\<rparr>"
  from assms(2) consider "row ! 2 = ''NVME''" | "row ! 2 = ''SATA''" | "row ! 2 = ''DISK''"
    by (auto simp: drive_types_def)
  then show ?thesis
  proof cases
    case 1
    with assms(3) have
      "query_drive w ?st row (nvme_command row) (parse_nvme (max_str_digits w))
          (base_smart_data row)
         = (Inl TypeError, ?st\<lparr>logged := logged ?st @ [(ERROR, e)]\<rparr>)"
      by (intro query_drive_fails) (simp add: row_client_def drive_command_def)
    with 1 assms(1) show ?thesis
      by (simp add: read_drive_def drive_types_def start_entry_def)
  next
    case 2
    with assms(3) have
      "query_drive w ?st row (smart_command row) parse_sata (base_smart_data row)
         = (Inl TypeError, ?st\<lparr>logged := logged ?st @ [(ERROR, e)]\<rparr>)"
      by (intro query_drive_fails) (simp add: row_client_def drive_command_def)
    with 2 assms(1) show ?thesis
      by (simp add: read_drive_def drive_types_def start_entry_def)
  next
    case 3
    with assms(3) have
      "query_drive w ?st row (smart_command row) parse_disk (base_smart_data row)
         = (Inl TypeError, ?st\<lparr>logged := logged ?st @ [(ERROR, e)]\<rparr>)"
      by (intro query_drive_fails) (simp add: row_client_def drive_command_def)
    with 3 assms(1) show ?thesis
      by (simp add: read_drive_def drive_types_def start_entry_def)
  qed
qed

lemma query_drive_reported:
  assumes "query_drive w st row (drive_command row) parse (base_smart_data row)
             = (Inr (''OK'', sd), st')"
    and "row ! 2 \<in> set drive_types"
    and "\<And>s lines s'. parse s lines = Inr s' \<Longrightarrow> s' ''Drive Name'' = s ''Drive Name''"
  shows "reported_ok w row \<and> sd ''Drive Name'' = Some (VStr (row ! 3))"
proof -
  from query_drive_ok [OF assms(1)] obtain lines where
    ok: "fst (esxi_command (ssh_hosts w) (row ! 1) (esxi_user w) (env w ''ESXI_PASS'')
                (drive_command row) []) = Some (lines, ''OK'')" and
    parsed: "parse (base_smart_data row) lines = Inr sd"
    by blast
  from ok assms(2) have "reported_ok w row"
    by (simp add: reported_ok_def)
  moreover from assms(3) [OF parsed] have "sd ''Drive Name'' = Some (VStr (row ! 3))"
    by (simp add: base_smart_data_def)
  ultimately show ?thesis by simp
qed

lemma read_drive_ok:
  assumes "read_drive w st row = (Inr (''OK'', sd), st')"
  shows "reported_ok w row \<and> sd ''Drive Name'' = Some (VStr (row ! 3))"
proof -
  let ?st = "st\<lparr>logged := logged st @ [start_entry row]\<rparr>"
  from assms have len: "\<not> length row < 4"
    by (auto simp: read_drive_def split: if_splits)
  consider "row ! 2 = ''NVME''" | "row ! 2 = ''SATA''" | "row ! 2 = ''DISK''"
    | "row ! 2 \<notin> set drive_types"
    by (auto simp: drive_types_def)
  then show ?thesis
  proof cases
    case 1
    with assms len have
      "query_drive w ?st row (drive_command row) (parse_nvme (max_str_digits w))
         (base_smart_data row) = (Inr (''OK'', sd), st')"
      by (simp add: read_drive_def drive_types_def drive_command_def start_entry_def)
    moreover from 1 have "row ! 2 \<in> set drive_types"
      by (simp add: drive_types_def)
    ultimately show ?thesis
      by (rule query_drive_reported) (rule parse_nvme_drive_name)
  next
    case 2
    with assms len have
      "query_drive w ?st row (drive_command row) parse_sata (base_smart_data row)
         = (Inr (''OK'', sd), st')"
      by (simp add: read_drive_def drive_types_def drive_command_def start_entry_def)
    moreover from 2 have "row ! 2 \<in> set drive_types"
      by (simp add: drive_types_def)
    ultimately show ?thesis
      by (rule query_drive_reported) (rule parse_sata_drive_name)
  next
    case 3
    with assms len have
      "query_drive w ?st row (drive_command row) parse_disk (base_smart_data row)
         = (Inr (''OK'', sd), st')"
      by (simp add: read_drive_def drive_types_def drive_command_def start_entry_def)
    moreover from 3 have "row ! 2 \<in> set drive_types"
      by (simp add: drive_types_def)
    ultimately show ?thesis
      by (rule query_drive_reported) (rule parse_disk_drive_name)
  next
    case 4
    with assms len show ?thesis
      by (simp add: read_drive_def drive_types_def)
  qed
qed

lemma process_row_records:
  assumes "process_row w st row = (fl, st')" and "smart \<in> set (records st' k)"
  shows "smart \<in> set (records st k)
         \<or> (reported_ok w row \<and> k = server_key row
            \<and> smart ''Drive Name'' = Some (VStr (row ! 3)))"
proof -
  obtain r st1 where rd: "read_drive w st row = (r, st1)"
    by (cases "read_drive w st row")
  then have same: "servers st1 = servers st"
    by (rule read_drive_servers)
  show ?thesis
  proof (cases r)
    case (Inl e)
    with assms(1) rd have "st' = st1"
      by (simp add: process_row_def)
    with assms(2) same show ?thesis
      by (simp add: records_def)
  next
    case (Inr p)
    obtain status sd where p: "p = (status, sd)"
      by (cases p)
    show ?thesis
    proof (cases "status = ''OK''")
      case True
      with rd Inr p have "read_drive w st row = (Inr (''OK'', sd), st1)"
        by simp
      then have ok: "reported_ok w row \<and> sd ''Drive Name'' = Some (VStr (row ! 3))"
        by (rule read_drive_ok)
      from assms(1) rd Inr p True same have
        "records st' k = (if k = server_key row then records st k @ [sd] else records st k)"
        by (auto simp: process_row_def records_def Let_def split: option.splits if_splits)
      with assms(2) ok show ?thesis
        by (auto split: if_splits)
    next
      case False
      with assms(1) rd Inr p same have "records st' k = records st k"
        by (auto simp: process_row_def records_def Let_def split: option.splits if_splits)
      with assms(2) show ?thesis by simp
    qed
  qed
qed

lemma main_loop_records:
  assumes "main_loop w st rows = (r, st')" and "smart \<in> set (records st' k)"
  shows "smart \<in> set (records st k)
         \<or> (\<exists>row\<in>set rows. reported_ok w row \<and> k = server_key row
              \<and> smart ''Drive Name'' = Some (VStr (row ! 3)))"
  using assms
proof (induction rows arbitrary: st)
  case Nil
  then show ?case by simp
next
  case (Cons row rows)
  obtain fl st1 where step: "process_row w st row = (fl, st1)"
    by (cases "process_row w st row")
  note here = process_row_records [OF step, of smart k]
  show ?case
  proof (cases fl)
    case Continue
    with Cons.prems(1) step have "main_loop w st1 rows = (r, st')"
      by simp
    from Cons.IH [OF this Cons.prems(2)] here show ?thesis
      by auto
  next
    case Break
    with Cons.prems(1) step have "st' = st1"
      by simp
    with Cons.prems(2) here show ?thesis
      by auto
  next
    case (Raise e)
    with Cons.prems(1) step have "st' = st1"
      by simp
    with Cons.prems(2) here show ?thesis
      by auto
  qed
qed

lemma main_loop_fails:
  assumes "4 \<le> length row" and "row ! 2 \<in> set drive_types"
    and "esxi_command_try (row_client w row) = Inl e"
  shows "main_loop w st (row # rest)
           = (Some TypeError, st\<lparr>logged := logged st @ [start_entry row, (ERROR, e)]\<rparr>)"
  by (simp add: process_row_def read_drive_fails [OF assms])

section \<open>Records and failed commands\<close>

text \<open>
  Claim C4. Every record that a run of the loop adds to the server collection belongs to
  a row whose remote command was run and reported \<^verbatim>\<open>'OK'\<close>: it stands under the key of
  that row and carries the drive name of that row. When one of the calls of the SSH
  library raises for a row of a supported type, \<^verbatim>\<open>esxi_command\<close> logs the exception and
  returns \<^verbatim>\<open>None\<close>, the subscript \<^verbatim>\<open>output[1]\<close> raises \<^verbatim>\<open>TypeError\<close>, and the loop ends
  there: the collection is as it was before the row, the log has gained the error, and
  the rows that follow have no effect.
\<close>

theorem records_only_on_success:
  "(main_loop w st rows = (r, st') \<and> smart \<in> set (records st' k)
      \<longrightarrow> smart \<in> set (records st k)
          \<or> (\<exists>row\<in>set rows. reported_ok w row \<and> k = server_key row
               \<and> smart ''Drive Name'' = Some (VStr (row ! 3))))
   \<and> (4 \<le> length row \<and> row ! 2 \<in> set drive_types
        \<and> esxi_command_try (row_client w row) = Inl e
      \<longrightarrow> main_loop w st (row # rest)
            = (Some TypeError, st\<lparr>logged := logged st @ [start_entry row, (ERROR, e)]\<rparr>))"
  using main_loop_records [of w st rows r st' smart k] main_loop_fails [of row w e st rest]
  by blast

text \<open>Unfolding the example world.\<close>

lemmas loop_eval =
  example_world_def empty_state_def row_client_def drive_command_def nvme_command_def
  smart_command_def esxi_user_def py_is_not_def default_esxi_user_def esxi_command_try_def
  esxi_command_def drive_types_def server_key_def records_def reported_ok_def start_entry_def

text \<open>
  In the example world the host of the second row is unreachable: the run ends at that
  row, and no record stands under its key.
\<close>

theorem records_only_on_success_witness:
  "main_loop example_world empty_state
       [[''esx2'', ''10.0.0.2'', ''SATA'', ''sdb''], [''esx1'', ''10.0.0.1'', ''DISK'', ''sdc'']]
     = (Some TypeError,
        empty_state\<lparr>logged :=
          [(INFO, ''########## Starting CSV iteration for esx2 drive sdb ##########''),
           (ERROR, ''timed out'')]\<rparr>)
   \<and> records (snd (main_loop example_world empty_state
         [[''esx1'', ''10.0.0.1'', ''SATA'', ''sda''], [''esx2'', ''10.0.0.2'', ''SATA'', ''sdb''],
          [''esx1'', ''10.0.0.1'', ''DISK'', ''sdc'']])) ''esx2 (10.0.0.2)'' = []"
proof -
  let ?rows = "[[''esx1'', ''10.0.0.1'', ''SATA'', ''sda''], [''esx2'', ''10.0.0.2'', ''SATA'', ''sdb''],
                [''esx1'', ''10.0.0.1'', ''DISK'', ''sdc'']]"
  let ?r = "main_loop example_world empty_state ?rows"
  have fails: "4 \<le> length [''esx2'', ''10.0.0.2'', ''SATA'', ''sdb'']
      \<and> [''esx2'', ''10.0.0.2'', ''SATA'', ''sdb''] ! 2 \<in> set drive_types
      \<and> esxi_command_try (row_client example_world [''esx2'', ''10.0.0.2'', ''SATA'', ''sdb''])
          = Inl ''timed out''"
    by (simp add: loop_eval)
  have first: "main_loop example_world empty_state
       [[''esx2'', ''10.0.0.2'', ''SATA'', ''sdb''], [''esx1'', ''10.0.0.1'', ''DISK'', ''sdc'']]
     = (Some TypeError,
        empty_state\<lparr>logged :=
          [(INFO, ''########## Starting CSV iteration for esx2 drive sdb ##########''),
           (ERROR, ''timed out'')]\<rparr>)"
    using fails records_only_on_success [of example_world empty_state _ _ _ _ _
        "[''esx2'', ''10.0.0.2'', ''SATA'', ''sdb'']" "''timed out''"
        "[[''esx1'', ''10.0.0.1'', ''DISK'', ''sdc'']]"]
    by (simp add: start_entry_def empty_state_def)
  have none: "\<not> (\<exists>row\<in>set ?rows. reported_ok example_world row
                   \<and> ''esx2 (10.0.0.2)'' = server_key row \<and> smart ''Drive Name'' = Some (VStr (row ! 3)))"
    for smart
    by (simp add: loop_eval)
  have "smart \<notin> set (records (snd ?r) ''esx2 (10.0.0.2)'')" for smart
  proof
    assume "smart \<in> set (records (snd ?r) ''esx2 (10.0.0.2)'')"
    with records_only_on_success [of example_world empty_state ?rows "fst ?r" "snd ?r" smart
        "''esx2 (10.0.0.2)''"]
    have "smart \<in> set (records empty_state ''esx2 (10.0.0.2)'')
          \<or> (\<exists>row\<in>set ?rows. reported_ok example_world row
               \<and> ''esx2 (10.0.0.2)'' = server_key row \<and> smart ''Drive Name'' = Some (VStr (row ! 3)))"
      by simp
    moreover have "smart \<notin> set (records empty_state ''esx2 (10.0.0.2)'')"
      by (simp add: records_def empty_state_def)
    ultimately show False
      using none [of smart] by blast
  qed
  then have "records (snd ?r) ''esx2 (10.0.0.2)'' = []"
    by (cases "records (snd ?r) ''esx2 (10.0.0.2)''") auto
  with first show ?thesis
    by simp
qed

section \<open>The server key after a failed command\<close>

lemma main_loop_unsupported:
  assumes "4 \<le> length row" and "row ! 2 \<notin> set drive_types"
    and "servers st (server_key row) = None"
  shows "fst (main_loop w st (row # rest)) = None
         \<and> servers (snd (main_loop w st (row # rest))) (server_key row) = Some []"
  using assms(3) by (simp add: process_row_def read_drive_unsupported [OF assms(1,2)] Let_def)

text \<open>
  Claim C10 does not hold of the code. When the remote command of a row fails, the loop
  body raises \<^verbatim>\<open>TypeError\<close> at \<^verbatim>\<open>output[1]\<close>, before the statement that inserts the
  server key: a key that was absent stays absent. The key is inserted with an empty
  sequence, and the loop left with \<^verbatim>\<open>break\<close>, only for a row whose drive type is not
  supported, for which no command is run.
\<close>

theorem failed_command_inserts_no_key:
  "(4 \<le> length row \<and> row ! 2 \<in> set drive_types
      \<and> esxi_command_try (row_client w row) = Inl e \<and> servers st (server_key row) = None
    \<longrightarrow> fst (main_loop w st (row # rest)) = Some TypeError
        \<and> servers (snd (main_loop w st (row # rest))) (server_key row) = None)
   \<and> (4 \<le> length row \<and> row ! 2 \<notin> set drive_types \<and> servers st (server_key row) = None
    \<longrightarrow> fst (main_loop w st (row # rest)) = None
        \<and> servers (snd (main_loop w st (row # rest))) (server_key row) = Some [])"
  using main_loop_fails [of row w e st rest] main_loop_unsupported [of row st w rest]
  by simp

text \<open>An unreachable host, and a row of type \<^verbatim>\<open>USB\<close>.\<close>

theorem failed_command_inserts_no_key_witness:
  "fst (main_loop example_world empty_state [[''esx2'', ''10.0.0.2'', ''NVME'', ''nvme0'']])
     = Some TypeError
   \<and> servers (snd (main_loop example_world empty_state
                      [[''esx2'', ''10.0.0.2'', ''NVME'', ''nvme0'']])) ''esx2 (10.0.0.2)'' = None
   \<and> fst (main_loop example_world empty_state [[''esx1'', ''10.0.0.1'', ''USB'', ''sdc'']]) = None
   \<and> servers (snd (main_loop example_world empty_state
                      [[''esx1'', ''10.0.0.1'', ''USB'', ''sdc'']])) ''esx1 (10.0.0.1)'' = Some []"
proof -
  have fails: "4 \<le> length [''esx2'', ''10.0.0.2'', ''NVME'', ''nvme0'']
      \<and> [''esx2'', ''10.0.0.2'', ''NVME'', ''nvme0''] ! 2 \<in> set drive_types
      \<and> esxi_command_try (row_client example_world [''esx2'', ''10.0.0.2'', ''NVME'', ''nvme0''])
          = Inl ''timed out''
      \<and> servers empty_state (server_key [''esx2'', ''10.0.0.2'', ''NVME'', ''nvme0'']) = None"
    by (simp add: loop_eval)
  have unsupported: "4 \<le> length [''esx1'', ''10.0.0.1'', ''USB'', ''sdc'']
      \<and> [''esx1'', ''10.0.0.1'', ''USB'', ''sdc''] ! 2 \<notin> set drive_types
      \<and> servers empty_state (server_key [''esx1'', ''10.0.0.1'', ''USB'', ''sdc'']) = None"
    by (simp add: loop_eval)
  from fails
    failed_command_inserts_no_key [of "[''esx2'', ''10.0.0.2'', ''NVME'', ''nvme0'']" example_world
      "''timed out''" empty_state "[]"]
  have "fst (main_loop example_world empty_state [[''esx2'', ''10.0.0.2'', ''NVME'', ''nvme0'']])
          = Some TypeError
        \<and> servers (snd (main_loop example_world empty_state
             [[''esx2'', ''10.0.0.2'', ''NVME'', ''nvme0'']]))
             (server_key [''esx2'', ''10.0.0.2'', ''NVME'', ''nvme0'']) = None"
    by blast
  moreover from unsupported
    failed_command_inserts_no_key [of "[''esx1'', ''10.0.0.1'', ''USB'', ''sdc'']" example_world
      _ empty_state "[]"]
  have "fst (main_loop example_world empty_state [[''esx1'', ''10.0.0.1'', ''USB'', ''sdc'']]) = None
        \<and> servers (snd (main_loop example_world empty_state
             [[''esx1'', ''10.0.0.1'', ''USB'', ''sdc'']]))
             (server_key [''esx1'', ''10.0.0.1'', ''USB'', ''sdc'']) = Some []"
    by blast
  ultimately show ?thesis
    by (simp add: server_key_def)
qed

text \<open>A whole run of the example.\<close>

lemma example_run:
  "fst (main_loop example_world empty_state
         [[''esx1'', ''10.0.0.1'', ''SATA'', ''sda''], [''esx2'', ''10.0.0.2'', ''SATA'', ''sdb''],
          [''esx1'', ''10.0.0.1'', ''DISK'', ''sdc'']]) = Some TypeError
   \<and> map (\<lambda>smart. smart ''Drive Name'')
        (records (snd (main_loop example_world empty_state
         [[''esx1'', ''10.0.0.1'', ''SATA'', ''sda''], [''esx2'', ''10.0.0.2'', ''SATA'', ''sdb''],
          [''esx1'', ''10.0.0.1'', ''DISK'', ''sdc'']])) ''esx1 (10.0.0.1)'')
      = [Some (VStr ''sda'')]
   \<and> logged (snd (main_loop example_world empty_state
         [[''esx1'', ''10.0.0.1'', ''SATA'', ''sda''], [''esx2'', ''10.0.0.2'', ''SATA'', ''sdb''],
          [''esx1'', ''10.0.0.1'', ''DISK'', ''sdc'']]))
      = [(INFO, ''########## Starting CSV iteration for esx1 drive sda ##########''),
         (INFO, ''########## Command for esx1, drive sda successful ##########''),
         (INFO, ''########## Starting CSV iteration for esx2 drive sdb ##########''),
         (ERROR, ''timed out'')]"
  by (simp add: loop_eval process_row_def read_drive_def query_drive_def subscript_output_def
        smart_eval parse_nvme_def Let_def)

end
